theory Spec2Isabelle
  imports
    Complex_Main
    "HOL-Library.AList"
    "HOL-Library.Char_ord"
    "HOL-Library.List_Lexorder"
    "HOL-Library.Product_Lexorder"
begin

section \<open>Conventions of the embedding\<close>

text \<open>
  The trade engine lives in \<^verbatim>\<open>trade_analyzer.py\<close> and \<^verbatim>\<open>trade_matcher.py\<close>.
  Python floats are modelled as \<^typ>\<open>real\<close>: every comparison, sum and threshold of the
  source is kept, the rounding error of binary floating point is not represented.
  A Python \<^verbatim>\<open>dict\<close> with string keys is an association list kept with distinct keys
  (\<^const>\<open>AList.update\<close> is the assignment \<^verbatim>\<open>d[k] = v\<close>), or a map where only lookups
  matter. A key that the source reads with \<^verbatim>\<open>.get(key, default)\<close> is an optional field.
  A pandas frame of player values is the list of its rows.
\<close>

subsection \<open>config.py\<close>

definition LINEUP_CONFIG :: "(string \<times> nat) list" where
  "LINEUP_CONFIG = [(''QB'', 1), (''RB'', 2), (''WR'', 2), (''TE'', 1), (''FLEX'', 1)]"

definition FAIRNESS_THRESHOLD :: real where
  "FAIRNESS_THRESHOLD = 12 / 100"

definition MIN_STARTER_GAIN :: real where
  "MIN_STARTER_GAIN = 3"

definition MAX_TRADES_PER_WEEK :: nat where
  "MAX_TRADES_PER_WEEK = 6"

definition TOTAL_TEAMS :: int where
  "TOTAL_TEAMS = 12"

subsection \<open>Data\<close>

type_synonym team = string

text \<open>One row of the valuation frame: columns \<^verbatim>\<open>sleeper_id\<close>, \<^verbatim>\<open>position\<close>, \<^verbatim>\<open>value\<close>.\<close>

record value_row =
  row_sleeper_id :: string
  row_position :: string
  row_value :: real

text \<open>A player dictionary as it travels inside a trade; every key is read with \<^verbatim>\<open>.get\<close>
  somewhere, so every key may be absent.\<close>

record player =
  sleeper_id :: "string option"
  position :: "string option"
  pvalue :: "real option"

text \<open>The roster dictionary read by \<^verbatim>\<open>calculate_starter_values\<close>: key \<^verbatim>\<open>players\<close> holds
  the player identifiers, the other keys (\<^verbatim>\<open>roster_id\<close>, \<^verbatim>\<open>owner_id\<close>) are never read.\<close>

record team_roster =
  players :: "string list option"
  roster_meta :: "(string \<times> string) list"

type_synonym starter_values = "(string \<times> real) list"

subsection \<open>trade_analyzer.py: calculate_starter_values\<close>

definition zero_starter_values :: starter_values where
  "zero_starter_values =
     map (\<lambda>pos. (pos, 0)) [''QB'', ''RB'', ''WR'', ''TE'', ''FLEX'', ''TOTAL'']"

definition required_starters :: "string \<Rightarrow> nat" where
  "required_starters pos = (case map_of LINEUP_CONFIG pos of Some n \<Rightarrow> n | None \<Rightarrow> 0)"

text \<open>The body of the loop over \<^verbatim>\<open>['QB', 'RB', 'WR', 'TE']\<close>; the state is
  \<^verbatim>\<open>(starter_values, used_players, flex_eligible)\<close>.\<close>

definition starter_step ::
  "value_row list \<Rightarrow> string \<Rightarrow> starter_values \<times> string list \<times> value_row list
     \<Rightarrow> starter_values \<times> string list \<times> value_row list" where
  "starter_step team_players pos st =
     (case st of (sv, used_players, flex_eligible) \<Rightarrow>
        let pos_players = filter (\<lambda>r. row_position r = pos) team_players;
            n = required_starters pos;
            starters = take n pos_players;
            sv' = AList.update pos (sum_list (map row_value starters)) sv;
            used' = used_players @ map row_sleeper_id starters
        in if pos \<noteq> ''QB'' then (sv', used', flex_eligible @ drop n pos_players)
           else (sv', used', flex_eligible))"

definition calculate_starter_values :: "team_roster \<Rightarrow> value_row list \<Rightarrow> starter_values" where
  "calculate_starter_values roster player_values =
     (let player_ids = (case players roster of None \<Rightarrow> [] | Some ids \<Rightarrow> ids) in
      if player_ids = [] then zero_starter_values
      else
        let team_players = filter (\<lambda>r. row_sleeper_id r \<in> set player_ids) player_values in
        if team_players = [] then zero_starter_values
        else
          let sorted_players = sort_key (\<lambda>r. (row_position r, - row_value r)) team_players;
              init = [(''QB'', 0), (''RB'', 0), (''WR'', 0), (''TE'', 0), (''FLEX'', 0)];
              st = fold (starter_step sorted_players) [''QB'', ''RB'', ''WR'', ''TE'']
                     (init, [], []);
              sv = fst st;
              flex_eligible = snd (snd st);
              sv2 = (if flex_eligible \<noteq> []
                     then AList.update ''FLEX''
                            (row_value (hd (sort_key (\<lambda>r. - row_value r) flex_eligible))) sv
                     else sv)
          in AList.update ''TOTAL'' (sum_list (map snd sv2)) sv2)"

text \<open>Reading a key of the result.\<close>

definition entry :: "starter_values \<Rightarrow> string \<Rightarrow> real option" where
  "entry sv pos = map_of sv pos"

text \<open>The six entries are present and \<^verbatim>\<open>TOTAL\<close> is the sum of the other five.\<close>

definition total_is_sum :: "starter_values \<Rightarrow> bool" where
  "total_is_sum sv \<longleftrightarrow>
     (\<exists>q r w t f. entry sv ''QB'' = Some q \<and> entry sv ''RB'' = Some r \<and> entry sv ''WR'' = Some w
        \<and> entry sv ''TE'' = Some t \<and> entry sv ''FLEX'' = Some f
        \<and> entry sv ''TOTAL'' = Some (q + r + w + t + f))"

subsection \<open>trade_analyzer.py: identify_needs_surplus\<close>

type_synonym deltas = "string \<rightharpoonup> real"

record needs_surplus =
  needs :: "string list"
  surplus :: "string list"
  ns_deltas :: deltas

definition tradeable_positions :: "string list" where
  "tradeable_positions = [''QB'', ''RB'', ''WR'', ''TE'', ''FLEX'']"

definition get_delta :: "deltas \<Rightarrow> string \<Rightarrow> real" where
  "get_delta ds pos = (case ds pos of None \<Rightarrow> 0 | Some d \<Rightarrow> d)"

text \<open>The classification loop: \<^verbatim>\<open>if delta < -2.0: needs.append ... elif delta > 2.0:
  surplus.append\<close>, with the two lists as the state.\<close>

fun classify_positions ::
  "deltas \<Rightarrow> string list \<Rightarrow> string list \<times> string list \<Rightarrow> string list \<times> string list" where
  "classify_positions ds [] acc = acc"
| "classify_positions ds (pos # rest) (ns, ss) =
     (if get_delta ds pos < - 2 then classify_positions ds rest (ns @ [pos], ss)
      else if get_delta ds pos > 2 then classify_positions ds rest (ns, ss @ [pos])
      else classify_positions ds rest (ns, ss))"

text \<open>\<^verbatim>\<open>list.sort\<close> is stable; with \<^verbatim>\<open>reverse=True\<close> it sorts descending and still keeps
  equal keys in their original order, which is a stable sort on the negated key.\<close>

definition classify_team :: "deltas \<Rightarrow> needs_surplus" where
  "classify_team ds =
     (case classify_positions ds tradeable_positions ([], []) of (ns, ss) \<Rightarrow>
        \<lparr> needs = sort_key (get_delta ds) ns,
          surplus = sort_key (\<lambda>pos. - get_delta ds pos) ss,
          ns_deltas = ds \<rparr>)"

definition identify_needs_surplus :: "(team \<rightharpoonup> deltas) \<Rightarrow> (team \<rightharpoonup> needs_surplus)" where
  "identify_needs_surplus team_deltas = (\<lambda>team_name. map_option classify_team (team_deltas team_name))"

subsection \<open>Trades\<close>

text \<open>A trade dictionary. The first six keys are written by the candidate generator; the
  last five are added by \<^verbatim>\<open>filter_valid_trades\<close> and read back with
  \<^verbatim>\<open>trade.get(key, default)\<close>, so they are optional.\<close>

record trade =
  trade_type :: string
  team_a :: team
  team_b :: team
  team_a_sends :: "player list"
  team_b_sends :: "player list"
  positions_addressed :: "(team \<times> string list) list"
  team_a_gain :: "real option"
  team_b_gain :: "real option"
  value_delta_pct :: "real option"
  trade_score :: "real option"
  is_fair :: "bool option"

definition get_or :: "'a \<Rightarrow> 'a option \<Rightarrow> 'a" where
  "get_or d v = (case v of None \<Rightarrow> d | Some x \<Rightarrow> x)"

text \<open>The exceptions of the source are values: a function that can raise returns a sum.\<close>

datatype py_error = KeyError

subsection \<open>trade_analyzer.py: candidate generation\<close>

text \<open>The dictionary from position to the team's players at it, best value first.
  \<^verbatim>\<open>enriched_data\<close> maps a team name to the player dictionaries of its roster.\<close>

type_synonym players_by_position = "(string \<times> player list) list"

definition get_team_players_by_position ::
  "team \<Rightarrow> value_row list \<Rightarrow> (team \<rightharpoonup> player list) option \<Rightarrow> players_by_position" where
  "get_team_players_by_position team_name player_values enriched_data =
     (case (case enriched_data of None \<Rightarrow> None | Some ed \<Rightarrow> ed team_name) of
        Some roster_players \<Rightarrow>
          map (\<lambda>pos. (pos, sort_key (\<lambda>x. - get_or 0 (pvalue x))
                              (filter (\<lambda>p. position p = Some pos) roster_players)))
              [''QB'', ''RB'', ''WR'', ''TE'']
      | None \<Rightarrow> map (\<lambda>pos. (pos, [])) [''QB'', ''RB'', ''WR'', ''TE''])"

definition players_at :: "players_by_position \<Rightarrow> string \<Rightarrow> player list" where
  "players_at team_players pos = get_or [] (map_of team_players pos)"

definition one_for_one_trade :: "team \<Rightarrow> team \<Rightarrow> string \<Rightarrow> string \<Rightarrow> player \<Rightarrow> player \<Rightarrow> trade" where
  "one_for_one_trade ta tb a_pos b_pos a_player b_player =
     \<lparr> trade_type = ''1-for-1'', team_a = ta, team_b = tb,
       team_a_sends = [a_player], team_b_sends = [b_player],
       positions_addressed = AList.update tb [a_pos] (AList.update ta [b_pos] []),
       team_a_gain = None, team_b_gain = None, value_delta_pct = None,
       trade_score = None, is_fair = None \<rparr>"

definition generate_1_for_1_trades ::
  "team \<Rightarrow> players_by_position \<Rightarrow> string list \<Rightarrow> team \<Rightarrow> players_by_position \<Rightarrow> string list
     \<Rightarrow> trade list" where
  "generate_1_for_1_trades ta team_a_players a_positions tb team_b_players b_positions =
     concat (map (\<lambda>a_pos.
       concat (map (\<lambda>b_pos.
         let a_players = take 3 (players_at team_a_players a_pos);
             b_players = take 3 (players_at team_b_players b_pos)
         in concat (map (\<lambda>a_player.
              map (\<lambda>b_player. one_for_one_trade ta tb a_pos b_pos a_player b_player) b_players)
            a_players))
        b_positions))
      a_positions)"

text \<open>A loop that extends the list \<^verbatim>\<open>trades\<close> and stops at the first exception.\<close>

fun concat_map_err :: "('a \<Rightarrow> py_error + 'b list) \<Rightarrow> 'a list \<Rightarrow> py_error + 'b list" where
  "concat_map_err f [] = Inr []"
| "concat_map_err f (x # xs) =
     (case f x of
        Inl e \<Rightarrow> Inl e
      | Inr ys \<Rightarrow> (case concat_map_err f xs of Inl e \<Rightarrow> Inl e | Inr zs \<Rightarrow> Inr (ys @ zs)))"

text \<open>\<^verbatim>\<open>p['sleeper_id'] == q['sleeper_id']\<close>: the subscript raises on a player without the
  key.\<close>

definition same_sleeper_id :: "player \<Rightarrow> player \<Rightarrow> py_error + bool" where
  "same_sleeper_id p q =
     (case sleeper_id p of
        None \<Rightarrow> Inl KeyError
      | Some x \<Rightarrow> (case sleeper_id q of None \<Rightarrow> Inl KeyError | Some y \<Rightarrow> Inr (x = y)))"

text \<open>\<^verbatim>\<open>for i, pos1 in enumerate(xs): for pos2 in xs[i:]\<close>.\<close>

definition position_pairs :: "string list \<Rightarrow> (string \<times> string) list" where
  "position_pairs xs = concat (map (\<lambda>i. map (\<lambda>y. (xs ! i, y)) (drop i xs)) [0..<length xs])"

definition two_for_two_trade ::
  "team \<Rightarrow> team \<Rightarrow> string \<Rightarrow> string \<Rightarrow> string \<Rightarrow> string \<Rightarrow> player \<Rightarrow> player \<Rightarrow> player \<Rightarrow> player
     \<Rightarrow> trade" where
  "two_for_two_trade ta tb a_pos1 a_pos2 b_pos1 b_pos2 a_p1 a_p2 b_p1 b_p2 =
     \<lparr> trade_type = ''2-for-2'', team_a = ta, team_b = tb,
       team_a_sends = [a_p1, a_p2], team_b_sends = [b_p1, b_p2],
       positions_addressed =
         AList.update tb [a_pos1, a_pos2] (AList.update ta [b_pos1, b_pos2] []),
       team_a_gain = None, team_b_gain = None, value_delta_pct = None,
       trade_score = None, is_fair = None \<rparr>"

text \<open>The second player list of a side: the top two of the second position, or the slice
  \<^verbatim>\<open>[1:3]\<close> when both positions are the same.\<close>

definition second_slot :: "players_by_position \<Rightarrow> string \<Rightarrow> string \<Rightarrow> player list" where
  "second_slot team_players pos1 pos2 =
     (if pos2 \<noteq> pos1 then take 2 (players_at team_players pos2)
      else take 2 (drop 1 (players_at team_players pos2)))"

definition generate_2_for_2_trades ::
  "team \<Rightarrow> players_by_position \<Rightarrow> string list \<Rightarrow> team \<Rightarrow> players_by_position \<Rightarrow> string list
     \<Rightarrow> py_error + trade list" where
  "generate_2_for_2_trades ta team_a_players a_positions_list tb team_b_players b_positions_list =
     concat_map_err (\<lambda>(a_pos1, a_pos2).
       concat_map_err (\<lambda>(b_pos1, b_pos2).
         let a_players1 = take 2 (players_at team_a_players a_pos1);
             a_players2 = second_slot team_a_players a_pos1 a_pos2;
             b_players1 = take 2 (players_at team_b_players b_pos1);
             b_players2 = second_slot team_b_players b_pos1 b_pos2
         in concat_map_err (\<lambda>a_p1.
              concat_map_err (\<lambda>a_p2.
                (case same_sleeper_id a_p1 a_p2 of
                   Inl e \<Rightarrow> Inl e
                 | Inr True \<Rightarrow> Inr []
                 | Inr False \<Rightarrow>
                     concat_map_err (\<lambda>b_p1.
                       concat_map_err (\<lambda>b_p2.
                         (case same_sleeper_id b_p1 b_p2 of
                            Inl e \<Rightarrow> Inl e
                          | Inr True \<Rightarrow> Inr []
                          | Inr False \<Rightarrow>
                              Inr [two_for_two_trade ta tb a_pos1 a_pos2 b_pos1 b_pos2
                                     a_p1 a_p2 b_p1 b_p2]))
                        b_players2)
                      b_players1))
               a_players2)
             a_players1)
        (position_pairs b_positions_list))
      (position_pairs a_positions_list)"

text \<open>
  The two position sets are Python sets, whose iteration order is not determined by their
  content. The order is a parameter of the model: \<open>iter S\<close> is the list in which the
  set \<open>S\<close> is traversed.
\<close>

type_synonym set_order = "string set \<Rightarrow> string list"

definition find_complementary_trades ::
  "set_order \<Rightarrow> team \<Rightarrow> needs_surplus \<Rightarrow> team \<Rightarrow> needs_surplus \<Rightarrow> value_row list
     \<Rightarrow> (team \<rightharpoonup> player list) option \<Rightarrow> py_error + trade list" where
  "find_complementary_trades iter ta team_a_data tb team_b_data player_values enriched_data =
     (let a_to_b_positions = set (surplus team_a_data) \<inter> set (needs team_b_data);
          b_to_a_positions = set (surplus team_b_data) \<inter> set (needs team_a_data)
      in if \<not> (a_to_b_positions \<noteq> {} \<and> b_to_a_positions \<noteq> {}) then Inr []
         else
           let team_a_players = get_team_players_by_position ta player_values enriched_data;
               team_b_players = get_team_players_by_position tb player_values enriched_data;
               a_order = iter a_to_b_positions;
               b_order = iter b_to_a_positions;
               trades1 = generate_1_for_1_trades ta team_a_players a_order tb team_b_players b_order
           in (case generate_2_for_2_trades ta team_a_players a_order tb team_b_players b_order of
                 Inl e \<Rightarrow> Inl e
               | Inr trades2 \<Rightarrow> Inr (trades1 @ trades2)))"

text \<open>The 1-for-1 candidates in the words of the specification, as pairs of the two
  \<^verbatim>\<open>sends\<close> lists: one of A's top-3 players at an A-surplus position with one of B's top-3
  players at a B-surplus position.\<close>

definition claimed_one_for_one ::
  "team \<Rightarrow> needs_surplus \<Rightarrow> team \<Rightarrow> needs_surplus \<Rightarrow> players_by_position \<Rightarrow> players_by_position
     \<Rightarrow> (player list \<times> player list) set" where
  "claimed_one_for_one ta team_a_data tb team_b_data team_a_players team_b_players =
     set (concat (map (\<lambda>a_pos.
       concat (map (\<lambda>b_pos.
         concat (map (\<lambda>a_player.
           map (\<lambda>b_player. ([a_player], [b_player]))
             (take 3 (players_at team_b_players b_pos)))
          (take 3 (players_at team_a_players a_pos))))
        (surplus team_b_data)))
      (surplus team_a_data)))"

definition one_for_one_sends :: "trade list \<Rightarrow> (player list \<times> player list) set" where
  "one_for_one_sends trades =
     (\<lambda>t. (team_a_sends t, team_b_sends t)) ` {t \<in> set trades. trade_type t = ''1-for-1''}"

text \<open>The shape of a 2-for-2 candidate.\<close>

definition is_two_for_two :: "trade \<Rightarrow> bool" where
  "is_two_for_two t \<longleftrightarrow>
     trade_type t = ''2-for-2'' \<and> length (team_a_sends t) = 2 \<and> length (team_b_sends t) = 2"

subsection \<open>trade_analyzer.py: score_trade\<close>

text \<open>The comparison is the source's: the percentage against \<^verbatim>\<open>FAIRNESS_THRESHOLD\<close> itself,
  which is 0.12.\<close>

definition score_trade :: "trade \<Rightarrow> real \<Rightarrow> real \<Rightarrow> real \<Rightarrow> real" where
  "score_trade trade team_a_gains team_b_gains delta_pct =
     (let base_score = team_a_gains + team_b_gains;
          abs_delta_pct = \<bar>delta_pct\<bar>;
          fairness_penalty =
            (if abs_delta_pct > FAIRNESS_THRESHOLD
             then (abs_delta_pct - FAIRNESS_THRESHOLD) * 50
             else abs_delta_pct * 10);
          risk_penalty1 =
            (if team_a_gains < MIN_STARTER_GAIN \<or> team_b_gains < MIN_STARTER_GAIN
             then 20 else 0);
          total_players = length (team_a_sends trade) + length (team_b_sends trade);
          risk_penalty =
            (if total_players > 4 then risk_penalty1 + real (total_players - 4) * 5
             else risk_penalty1);
          format_bonus = (if trade_type trade = ''2-for-2'' then 5 else 0);
          final_score = base_score + format_bonus - fairness_penalty - risk_penalty
      in max 0 final_score)"

text \<open>The score in the words of the specification: the fairness penalty is ten times the
  percentage within the 12% threshold and fifty times the excess over 12 beyond it; the risk
  penalty is 20 when a gain is below 3.0, plus 5 for each player beyond four.\<close>

definition claimed_trade_score :: "trade \<Rightarrow> real \<Rightarrow> real \<Rightarrow> real \<Rightarrow> real" where
  "claimed_trade_score trade gain_a gain_b delta_pct =
     (let base = gain_a + gain_b;
          bonus = (if trade_type trade = ''2-for-2'' then 5 else 0);
          fairness = (if delta_pct \<le> 12 then 10 * delta_pct
                      else 50 * (delta_pct - 12));
          total_players = length (team_a_sends trade) + length (team_b_sends trade);
          risk = (if gain_a < 3 \<or> gain_b < 3 then 20 else 0)
                 + 5 * real (total_players - 4)
      in max 0 (base + bonus - (fairness + risk)))"

subsection \<open>trade_analyzer.py: the fairness gate\<close>

text \<open>\<^verbatim>\<open>round(x, 1)\<close>: to the nearest tenth, a tie going to the even tenth.\<close>

definition py_round1 :: "real \<Rightarrow> real" where
  "py_round1 x =
     (let y = x * 10;
          f = \<lfloor>y\<rfloor>;
          d = y - of_int f
      in (if d < 1 / 2 then of_int f
          else if d > 1 / 2 then of_int (f + 1)
          else if even f then of_int f else of_int (f + 1)) / 10)"

text \<open>One pass of the loop of \<^verbatim>\<open>_calculate_trade_side_value\<close>: the value of the first row
  of the frame with the player's identifier, and the value on the player dictionary
  (default 0) when the identifier is missing, empty or not in the frame.\<close>

definition player_trade_value :: "value_row list \<Rightarrow> player \<Rightarrow> real" where
  "player_trade_value player_values p =
     (case sleeper_id p of
        Some sid \<Rightarrow>
          if sid \<noteq> []
          then (case find (\<lambda>r. row_sleeper_id r = sid) player_values of
                  Some r \<Rightarrow> row_value r
                | None \<Rightarrow> get_or 0 (pvalue p))
          else get_or 0 (pvalue p)
      | None \<Rightarrow> get_or 0 (pvalue p))"

definition calculate_trade_side_value :: "player list \<Rightarrow> value_row list \<Rightarrow> real" where
  "calculate_trade_side_value ps player_values =
     (if ps = [] then 0
      else fold (\<lambda>p total_value. total_value + player_trade_value player_values p) ps 0)"

definition check_fairness_constraint :: "trade \<Rightarrow> value_row list \<Rightarrow> bool \<times> real" where
  "check_fairness_constraint trade player_values =
     (let team_a_value = calculate_trade_side_value (team_a_sends trade) player_values;
          team_b_value = calculate_trade_side_value (team_b_sends trade) player_values
      in if team_a_value = 0 \<or> team_b_value = 0 then (False, 100)
         else
           let higher_value = max team_a_value team_b_value;
               value_difference = \<bar>team_a_value - team_b_value\<bar>;
               delta_pct = (value_difference / higher_value) * 100;
               fair = (delta_pct \<le> FAIRNESS_THRESHOLD * 100)
           in (fair, py_round1 delta_pct))"

subsection \<open>trade_analyzer.py: trade simulation on shared rosters\<close>

text \<open>
  Roster dictionaries and their \<^verbatim>\<open>players\<close> lists are mutable objects that the caller
  shares with the simulation, so they live in an explicit store: addresses map to
  dictionary objects and to list objects, and \<^verbatim>\<open>next_addr\<close> is the next address handed
  out. A roster dictionary holds the reference to its list (absent without the key
  \<^verbatim>\<open>players\<close>) and its other keys. \<^verbatim>\<open>copy()\<close> allocates a new object: for a dictionary
  it is shallow, the copy refers to the same list.
\<close>

type_synonym addr = nat

record roster_obj =
  players_ref :: "addr option"
  obj_meta :: "(string \<times> string) list"

record heap =
  dict_objs :: "addr \<rightharpoonup> roster_obj"
  list_objs :: "addr \<rightharpoonup> string list"
  next_addr :: addr

definition empty_obj :: roster_obj where
  "empty_obj = \<lparr> players_ref = None, obj_meta = [] \<rparr>"

definition deref_dict :: "heap \<Rightarrow> addr \<Rightarrow> roster_obj" where
  "deref_dict h a = get_or empty_obj (dict_objs h a)"

definition deref_list :: "heap \<Rightarrow> addr \<Rightarrow> string list" where
  "deref_list h a = get_or [] (list_objs h a)"

text \<open>The roster dictionary at an address as \<^verbatim>\<open>calculate_starter_values\<close> reads it.\<close>

definition read_roster :: "heap \<Rightarrow> addr \<Rightarrow> team_roster" where
  "read_roster h a =
     \<lparr> players = map_option (deref_list h) (players_ref (deref_dict h a)),
       roster_meta = obj_meta (deref_dict h a) \<rparr>"

definition alloc_dict :: "roster_obj \<Rightarrow> heap \<Rightarrow> addr \<times> heap" where
  "alloc_dict d h =
     (next_addr h, h\<lparr> dict_objs := (dict_objs h)(next_addr h \<mapsto> d), next_addr := Suc (next_addr h) \<rparr>)"

definition alloc_list :: "string list \<Rightarrow> heap \<Rightarrow> addr \<times> heap" where
  "alloc_list xs h =
     (next_addr h, h\<lparr> list_objs := (list_objs h)(next_addr h \<mapsto> xs), next_addr := Suc (next_addr h) \<rparr>)"

definition dict_copy :: "addr \<Rightarrow> heap \<Rightarrow> addr \<times> heap" where
  "dict_copy a h = alloc_dict (deref_dict h a) h"

definition list_copy :: "addr option \<Rightarrow> heap \<Rightarrow> addr \<times> heap" where
  "list_copy l h = alloc_list (case l of None \<Rightarrow> [] | Some a \<Rightarrow> deref_list h a) h"

text \<open>\<^verbatim>\<open>list.remove\<close>, \<^verbatim>\<open>list.append\<close> and the assignment to the key \<^verbatim>\<open>players\<close> change
  the object at the address, in place.\<close>

definition list_remove :: "addr \<Rightarrow> string \<Rightarrow> heap \<Rightarrow> heap" where
  "list_remove l x h = h\<lparr> list_objs := (list_objs h)(l \<mapsto> remove1 x (deref_list h l)) \<rparr>"

definition list_append :: "addr \<Rightarrow> string \<Rightarrow> heap \<Rightarrow> heap" where
  "list_append l x h = h\<lparr> list_objs := (list_objs h)(l \<mapsto> deref_list h l @ [x]) \<rparr>"

definition dict_set_players :: "addr \<Rightarrow> addr \<Rightarrow> heap \<Rightarrow> heap" where
  "dict_set_players a l h =
     h\<lparr> dict_objs := (dict_objs h)(a \<mapsto> (deref_dict h a)\<lparr> players_ref := Some l \<rparr>) \<rparr>"

text \<open>The bodies of the two loops of \<^verbatim>\<open>_simulate_trade_roster\<close>.\<close>

definition remove_step :: "addr \<Rightarrow> player \<Rightarrow> heap \<Rightarrow> heap" where
  "remove_step player_ids p h =
     (case sleeper_id p of
        Some sid \<Rightarrow> if sid \<noteq> [] \<and> sid \<in> set (deref_list h player_ids)
                    then list_remove player_ids sid h else h
      | None \<Rightarrow> h)"

definition add_step :: "addr \<Rightarrow> player \<Rightarrow> heap \<Rightarrow> heap" where
  "add_step player_ids p h =
     (case sleeper_id p of
        Some sid \<Rightarrow> if sid \<noteq> [] then list_append player_ids sid h else h
      | None \<Rightarrow> h)"

definition simulate_trade_roster :: "addr \<Rightarrow> player list \<Rightarrow> player list \<Rightarrow> heap \<Rightarrow> addr \<times> heap" where
  "simulate_trade_roster roster removes adds h =
     (case dict_copy roster h of (updated_roster, h1) \<Rightarrow>
        (case list_copy (players_ref (deref_dict h1 updated_roster)) h1 of (player_ids, h2) \<Rightarrow>
           let h3 = fold (remove_step player_ids) removes h2;
               h4 = fold (add_step player_ids) adds h3
           in (updated_roster, dict_set_players updated_roster player_ids h4)))"

text \<open>\<^verbatim>\<open>not roster\<close> for a roster dictionary: it has no key.\<close>

definition roster_falsy :: "heap \<Rightarrow> addr \<Rightarrow> bool" where
  "roster_falsy h a \<longleftrightarrow> players_ref (deref_dict h a) = None \<and> obj_meta (deref_dict h a) = []"

text \<open>\<^verbatim>\<open>starter_values['TOTAL']\<close>; the key is always there.\<close>

definition starter_total :: "starter_values \<Rightarrow> real" where
  "starter_total sv = get_or 0 (entry sv ''TOTAL'')"

text \<open>\<^verbatim>\<open>team_rosters\<close> maps a team name to the address of its roster dictionary. For an
  unknown team \<^verbatim>\<open>team_rosters.get(team, {})\<close> is an empty dictionary and the function
  returns \<^verbatim>\<open>(0.0, 0.0)\<close> at once.\<close>

definition calculate_starter_impact ::
  "trade \<Rightarrow> (team \<rightharpoonup> addr) \<Rightarrow> value_row list \<Rightarrow> heap \<Rightarrow> (real \<times> real) \<times> heap" where
  "calculate_starter_impact trade team_rosters player_values h =
     (case (team_rosters (team_a trade), team_rosters (team_b trade)) of
        (Some ra, Some rb) \<Rightarrow>
          if roster_falsy h ra \<or> roster_falsy h rb then ((0, 0), h)
          else
            let team_a_current = calculate_starter_values (read_roster h ra) player_values;
                team_b_current = calculate_starter_values (read_roster h rb) player_values
            in (case dict_copy ra h of (copy_a, h1) \<Rightarrow>
                 (case simulate_trade_roster copy_a (team_a_sends trade) (team_b_sends trade) h1 of
                    (team_a_new_roster, h2) \<Rightarrow>
                   (case dict_copy rb h2 of (copy_b, h3) \<Rightarrow>
                     (case simulate_trade_roster copy_b (team_b_sends trade) (team_a_sends trade) h3 of
                        (team_b_new_roster, h4) \<Rightarrow>
                       let team_a_new =
                             calculate_starter_values (read_roster h4 team_a_new_roster) player_values;
                           team_b_new =
                             calculate_starter_values (read_roster h4 team_b_new_roster) player_values;
                           gain_a = starter_total team_a_new - starter_total team_a_current;
                           gain_b = starter_total team_b_new - starter_total team_b_current
                       in ((py_round1 gain_a, py_round1 gain_b), h4)))))
      | _ \<Rightarrow> ((0, 0), h))"

text \<open>Frame conditions: every object allocated in \<open>h\<close> is the same in \<open>h'\<close>; only objects at
  addresses from \<open>n\<close> on were written.\<close>

definition preserves :: "heap \<Rightarrow> heap \<Rightarrow> bool" where
  "preserves h h' \<longleftrightarrow>
     next_addr h \<le> next_addr h'
     \<and> (\<forall>a < next_addr h. dict_objs h' a = dict_objs h a \<and> list_objs h' a = list_objs h a)"

definition fresh_write :: "addr \<Rightarrow> heap \<Rightarrow> heap \<Rightarrow> bool" where
  "fresh_write n h h' \<longleftrightarrow>
     next_addr h' = next_addr h
     \<and> (\<forall>a < n. dict_objs h' a = dict_objs h a \<and> list_objs h' a = list_objs h a)"

text \<open>A well-formed store: the roster dictionaries and the lists they refer to lie below
  the allocation pointer.\<close>

definition heap_ok :: "heap \<Rightarrow> bool" where
  "heap_ok h \<longleftrightarrow>
     (\<forall>a d. dict_objs h a = Some d \<longrightarrow>
        a < next_addr h \<and> (\<forall>l. players_ref d = Some l \<longrightarrow> l < next_addr h))"

subsection \<open>trade_matcher.py: the graph\<close>

text \<open>
  The \<^verbatim>\<open>networkx.Graph\<close> the module builds: the nodes in insertion order and the adjacency
  with one attribute dictionary per unordered pair, stored under both orientations as the
  library does. \<^verbatim>\<open>add_edge\<close> on a pair that already has an edge overwrites its three
  attributes, so the last trade of a pair is the one the edge carries.
\<close>

record edge_data =
  weight :: real
  trade_id :: nat
  trade_data :: trade

record graph =
  nodes :: "team list"
  adj :: "team \<times> team \<rightharpoonup> edge_data"

definition add_node :: "team \<Rightarrow> team list \<Rightarrow> team list" where
  "add_node n ns = (if n \<in> set ns then ns else ns @ [n])"

definition add_edge :: "team \<Rightarrow> team \<Rightarrow> edge_data \<Rightarrow> graph \<Rightarrow> graph" where
  "add_edge u v d G =
     \<lparr> nodes = add_node v (add_node u (nodes G)),
       adj = (adj G)((u, v) \<mapsto> d, (v, u) \<mapsto> d) \<rparr>"

fun add_trade_edges :: "nat \<Rightarrow> trade list \<Rightarrow> graph \<Rightarrow> graph" where
  "add_trade_edges i [] G = G"
| "add_trade_edges i (t # ts) G =
     add_trade_edges (Suc i) ts
       (add_edge (team_a t) (team_b t)
          \<lparr> weight = get_or 0 (trade_score t), trade_id = i, trade_data = t \<rparr> G)"

definition build_trade_graph :: "trade list \<Rightarrow> graph" where
  "build_trade_graph valid_trades =
     (let teams = fold (\<lambda>t acc. add_node (team_b t) (add_node (team_a t) acc)) valid_trades []
      in add_trade_edges 0 valid_trades \<lparr> nodes = teams, adj = Map.empty \<rparr>)"

text \<open>
  \<^verbatim>\<open>networkx.algorithms.matching.max_weight_matching(G, maxcardinality)\<close> is a library
  routine outside the repository. It is a parameter of the model: a function from the graph
  and the flag to the pairs it returns, in the order the source iterates over them.
\<close>

type_synonym matcher = "graph \<Rightarrow> bool \<Rightarrow> (team \<times> team) list"

text \<open>What the library guarantees of a matching: each of its pairs joins two different
  nodes (self-loops are ignored by the routine).\<close>

definition no_self_pairs :: "matcher \<Rightarrow> bool" where
  "no_self_pairs mwm \<longleftrightarrow> (\<forall>G b. \<forall>(u, v) \<in> set (mwm G b). u \<noteq> v)"

text \<open>Every edge of a graph built from trades carries a trade between its two end points.\<close>

definition edges_join_teams :: "graph \<Rightarrow> bool" where
  "edges_join_teams G \<longleftrightarrow>
     (\<forall>u v d. adj G (u, v) = Some d \<longrightarrow>
        {team_a (trade_data d), team_b (trade_data d)} = {u, v})"

text \<open>The loop \<^verbatim>\<open>for team_a, team_b in matching: edge_data = G[team_a][team_b] ...\<close>;
  the subscript raises \<^verbatim>\<open>KeyError\<close> on a pair that is no edge.\<close>

fun extract_trades :: "graph \<Rightarrow> (team \<times> team) list \<Rightarrow> py_error + trade list" where
  "extract_trades G [] = Inr []"
| "extract_trades G ((a, b) # ms) =
     (case adj G (a, b) of
        None \<Rightarrow> Inl KeyError
      | Some d \<Rightarrow>
          (case extract_trades G ms of
             Inl e \<Rightarrow> Inl e
           | Inr ts \<Rightarrow> Inr (trade_data d # ts)))"

subsection \<open>trade_matcher.py: find_perfect_matching\<close>

text \<open>The body of the \<^verbatim>\<open>try\<close> block, then the function with its
  \<^verbatim>\<open>except Exception: return None\<close>.\<close>

definition find_perfect_matching_try ::
  "matcher \<Rightarrow> graph \<Rightarrow> int \<Rightarrow> py_error + trade list option" where
  "find_perfect_matching_try mwm G target_teams =
     (if int (length (nodes G)) \<noteq> target_teams then Inr None
      else if length (nodes G) mod 2 \<noteq> 0 then Inr None
      else
        let matching = mwm G True in
        if int (length matching) \<noteq> target_teams div 2 then Inr None
        else (case extract_trades G matching of
                Inl e \<Rightarrow> Inl e
              | Inr selected_trades \<Rightarrow> Inr (Some selected_trades)))"

definition find_perfect_matching :: "matcher \<Rightarrow> graph \<Rightarrow> int \<Rightarrow> trade list option" where
  "find_perfect_matching mwm G target_teams =
     (case find_perfect_matching_try mwm G target_teams of
        Inl e \<Rightarrow> None
      | Inr r \<Rightarrow> r)"

subsection \<open>trade_matcher.py: the relaxation ladder\<close>

definition widen_fairness_threshold :: "trade list \<Rightarrow> real \<Rightarrow> trade list" where
  "widen_fairness_threshold trades new_threshold =
     filter (\<lambda>t. get_or 0 (value_delta_pct t) \<le> new_threshold * 100) trades"

definition allow_uneven_trades ::
  "trade list \<Rightarrow> (team \<rightharpoonup> team_roster) \<Rightarrow> value_row list \<Rightarrow> trade list" where
  "allow_uneven_trades trades team_rosters player_values = trades"

definition lower_starter_gain_threshold :: "trade list \<Rightarrow> real \<Rightarrow> trade list" where
  "lower_starter_gain_threshold trades new_threshold =
     filter (\<lambda>t. get_or 0 (team_a_gain t) \<ge> new_threshold
                \<and> get_or 0 (team_b_gain t) \<ge> new_threshold) trades"

definition find_best_partial_matching :: "matcher \<Rightarrow> trade list \<Rightarrow> py_error + trade list option" where
  "find_best_partial_matching mwm trades =
     (if trades = [] then Inr None
      else
        let G = build_trade_graph trades;
            matching = mwm G False
        in if matching = [] then Inr None
           else (case extract_trades G matching of
                   Inl e \<Rightarrow> Inl e
                 | Inr selected_trades \<Rightarrow> Inr (Some selected_trades)))"

text \<open>Python truth of an \<^verbatim>\<open>Optional[List]\<close>: neither \<^verbatim>\<open>None\<close> nor empty.\<close>

definition truthy :: "'a list option \<Rightarrow> bool" where
  "truthy r = (case r of None \<Rightarrow> False | Some xs \<Rightarrow> xs \<noteq> [])"

definition relax_constraints_and_retry ::
  "matcher \<Rightarrow> trade list \<Rightarrow> (team \<rightharpoonup> team_roster) \<Rightarrow> value_row list
     \<Rightarrow> py_error + trade list option" where
  "relax_constraints_and_retry mwm valid_trades team_rosters player_values =
     (let relaxed1 = widen_fairness_threshold valid_trades (15 / 100);
          result1 = (if relaxed1 \<noteq> []
                     then find_perfect_matching mwm (build_trade_graph relaxed1) TOTAL_TEAMS
                     else None)
      in if truthy result1 then Inr result1
      else
        let relaxed2 = widen_fairness_threshold valid_trades (20 / 100);
            result2 = (if relaxed2 \<noteq> []
                       then find_perfect_matching mwm (build_trade_graph relaxed2) TOTAL_TEAMS
                       else None)
        in if truthy result2 then Inr result2
        else
          let relaxed3 = lower_starter_gain_threshold valid_trades 1;
              result3 = (if relaxed3 \<noteq> []
                         then find_perfect_matching mwm (build_trade_graph relaxed3) TOTAL_TEAMS
                         else None)
          in if truthy result3 then Inr result3
          else
            let relaxed4 = allow_uneven_trades valid_trades team_rosters player_values;
                result4 = (if relaxed4 \<noteq> []
                           then find_perfect_matching mwm (build_trade_graph relaxed4) TOTAL_TEAMS
                           else None)
            in if truthy result4 then Inr result4
            else
              (case find_best_partial_matching mwm valid_trades of
                 Inl e \<Rightarrow> Inl e
               | Inr partial_result \<Rightarrow>
                   if truthy partial_result then Inr partial_result else Inr None))"

subsection \<open>trade_matcher.py: validation and selection\<close>

text \<open>The messages \<^verbatim>\<open>validate_matching_constraints\<close> prints, in order.\<close>

datatype message =
    ConstraintViolation
  | TradeCountWarning nat nat
  | TeamCoverageWarning nat nat

text \<open>The loop over the selected trades with the set \<^verbatim>\<open>teams_involved\<close> as its state;
  \<^verbatim>\<open>None\<close> is the early \<^verbatim>\<open>return False\<close>.\<close>

fun check_teams :: "trade list \<Rightarrow> team list \<Rightarrow> team list option" where
  "check_teams [] teams_involved = Some teams_involved"
| "check_teams (t # ts) teams_involved =
     (if team_a t \<in> set teams_involved \<or> team_b t \<in> set teams_involved then None
      else check_teams ts (add_node (team_b t) (add_node (team_a t) teams_involved)))"

definition validate_matching_constraints :: "trade list \<Rightarrow> message list \<times> bool" where
  "validate_matching_constraints selected_trades =
     (if selected_trades = [] then ([], False)
      else
        (case check_teams selected_trades [] of
           None \<Rightarrow> ([ConstraintViolation], False)
         | Some teams_involved \<Rightarrow>
             ((if length selected_trades \<noteq> MAX_TRADES_PER_WEEK
               then [TradeCountWarning (length selected_trades) MAX_TRADES_PER_WEEK] else [])
              @ (if int (length teams_involved) \<noteq> TOTAL_TEAMS
                 then [TeamCoverageWarning (length teams_involved) (nat TOTAL_TEAMS)] else []),
              True)))"

definition select_optimal_trades ::
  "matcher \<Rightarrow> trade list \<Rightarrow> (team \<rightharpoonup> team_roster) \<Rightarrow> value_row list
     \<Rightarrow> py_error + trade list" where
  "select_optimal_trades mwm valid_trades team_rosters player_values =
     (if valid_trades = [] then Inr []
      else
        let first_try = find_perfect_matching mwm (build_trade_graph valid_trades) TOTAL_TEAMS in
        (case (if first_try = None
               then relax_constraints_and_retry mwm valid_trades team_rosters player_values
               else Inr first_try) of
           Inl e \<Rightarrow> Inl e
         | Inr None \<Rightarrow> Inr []
         | Inr (Some selected_trades) \<Rightarrow>
             if selected_trades \<noteq> []
             then (if snd (validate_matching_constraints selected_trades)
                   then Inr selected_trades else Inr [])
             else Inr []))"

subsection \<open>The selector in the words of the specification\<close>

text \<open>
  The relaxation ladder as the specification describes it: an ordered list of strategies,
  each followed by a rebuild of the graph and a new attempt at a perfect matching, the first
  success ending the search. These definitions are compared with the source's
  \<^verbatim>\<open>relax_constraints_and_retry\<close> below.
\<close>

definition ladder_strategies ::
  "(team \<rightharpoonup> team_roster) \<Rightarrow> value_row list \<Rightarrow> (trade list \<Rightarrow> trade list) list" where
  "ladder_strategies team_rosters player_values =
     [\<lambda>ts. widen_fairness_threshold ts (15 / 100),
      \<lambda>ts. widen_fairness_threshold ts (20 / 100),
      \<lambda>ts. lower_starter_gain_threshold ts 1,
      \<lambda>ts. allow_uneven_trades ts team_rosters player_values]"

definition rebuild_and_match :: "matcher \<Rightarrow> trade list \<Rightarrow> trade list option" where
  "rebuild_and_match mwm ts =
     (case find_perfect_matching mwm (build_trade_graph ts) TOTAL_TEAMS of
        None \<Rightarrow> None
      | Some r \<Rightarrow> if r = [] then None else Some r)"

fun first_success :: "('a \<Rightarrow> 'b option) \<Rightarrow> 'a list \<Rightarrow> 'b option" where
  "first_success f [] = None"
| "first_success f (x # xs) = (case f x of Some y \<Rightarrow> Some y | None \<Rightarrow> first_success f xs)"

text \<open>The team identifiers of a selection, with multiplicity, and the selections in which
  some team occurs in two different trades.\<close>

definition selection_teams :: "trade list \<Rightarrow> team list" where
  "selection_teams sel = concat (map (\<lambda>t. [team_a t, team_b t]) sel)"

fun team_in_two_trades :: "trade list \<Rightarrow> bool" where
  "team_in_two_trades [] = False"
| "team_in_two_trades (t # ts) =
     ((\<exists>u \<in> set ts. team_a u \<in> {team_a t, team_b t} \<or> team_b u \<in> {team_a t, team_b t})
      \<or> team_in_two_trades ts)"

text \<open>The value of \<^verbatim>\<open>selected_trades\<close> in \<^verbatim>\<open>select_optimal_trades\<close> after steps 1 and 2,
  before the validation of step 3.\<close>

definition candidate_selection ::
  "matcher \<Rightarrow> trade list \<Rightarrow> (team \<rightharpoonup> team_roster) \<Rightarrow> value_row list
     \<Rightarrow> py_error + trade list option" where
  "candidate_selection mwm valid_trades team_rosters player_values =
     (let first_try = find_perfect_matching mwm (build_trade_graph valid_trades) TOTAL_TEAMS in
      if first_try = None
      then relax_constraints_and_retry mwm valid_trades team_rosters player_values
      else Inr first_try)"

text \<open>What \<^verbatim>\<open>validate_matching_constraints\<close> prints for a selection it accepts.\<close>

definition expected_messages :: "trade list \<Rightarrow> message list" where
  "expected_messages c =
     (if length c \<noteq> 6 then [TradeCountWarning (length c) 6] else [])
     @ (if card (set (selection_teams c)) \<noteq> 12
        then [TeamCoverageWarning (card (set (selection_teams c))) 12] else [])"

subsection \<open>Example data\<close>

text \<open>A trade as \<^verbatim>\<open>filter_valid_trades\<close> leaves it, with its two teams, gains, fairness
  percentage and score.\<close>

definition validated_trade :: "team \<Rightarrow> team \<Rightarrow> real \<Rightarrow> real \<Rightarrow> real \<Rightarrow> real \<Rightarrow> trade" where
  "validated_trade a b ga gb pct score =
     \<lparr> trade_type = ''1-for-1'', team_a = a, team_b = b,
       team_a_sends = [], team_b_sends = [],
       positions_addressed = [],
       team_a_gain = Some ga, team_b_gain = Some gb, value_delta_pct = Some pct,
       trade_score = Some score, is_fair = Some True \<rparr>"

text \<open>A candidate trade as the generator leaves it, and a player dictionary with all its
  keys.\<close>

definition candidate_trade :: "team \<Rightarrow> team \<Rightarrow> player list \<Rightarrow> player list \<Rightarrow> trade" where
  "candidate_trade a b sa sb =
     \<lparr> trade_type = ''1-for-1'', team_a = a, team_b = b, team_a_sends = sa, team_b_sends = sb,
       positions_addressed = [], team_a_gain = None, team_b_gain = None,
       value_delta_pct = None, trade_score = None, is_fair = None \<rparr>"

definition known_player :: "string \<Rightarrow> string \<Rightarrow> real \<Rightarrow> player" where
  "known_player sid pos v = \<lparr> sleeper_id = Some sid, position = Some pos, pvalue = Some v \<rparr>"

definition index_row :: "string \<Rightarrow> string \<Rightarrow> real \<Rightarrow> value_row" where
  "index_row sid pos v = \<lparr> row_sleeper_id = sid, row_position = pos, row_value = v \<rparr>"

text \<open>One traversal order for sets of positions, needs and surplus lists without deltas, and
  two rosters.\<close>

definition listed_order :: set_order where
  "listed_order S = filter (\<lambda>pos. pos \<in> S) [''QB'', ''RB'', ''WR'', ''TE'', ''FLEX'']"

definition position_lists :: "string list \<Rightarrow> string list \<Rightarrow> needs_surplus" where
  "position_lists n s = \<lparr> needs = n, surplus = s, ns_deltas = Map.empty \<rparr>"

definition example_rosters :: "(team \<rightharpoonup> player list) option" where
  "example_rosters =
     Some [''A'' \<mapsto> [known_player ''1'' ''QB'' 50, known_player ''2'' ''WR'' 40],
           ''B'' \<mapsto> [known_player ''3'' ''RB'' 45, known_player ''4'' ''RB'' 48]]"

text \<open>A store with the rosters of two teams, and a trade between them.\<close>

definition example_heap :: heap where
  "example_heap =
     \<lparr> dict_objs = [0 \<mapsto> \<lparr> players_ref = Some 1, obj_meta = [(''owner_id'', ''user1'')] \<rparr>,
                    2 \<mapsto> \<lparr> players_ref = Some 3, obj_meta = [(''owner_id'', ''user2'')] \<rparr>],
       list_objs = [1 \<mapsto> [''421'', ''4046''], 3 \<mapsto> [''4035'', ''515'']],
       next_addr = 4 \<rparr>"

definition example_swap :: trade where
  "example_swap = candidate_trade ''Team1'' ''Team2''
     [known_player ''421'' ''QB'' 45] [known_player ''4035'' ''TE'' 36]"

section \<open>Lineup evaluation\<close>

lemma starter_step_keys:
  "map fst (fst st) = [''QB'', ''RB'', ''WR'', ''TE'', ''FLEX'']
   \<Longrightarrow> pos \<in> set [''QB'', ''RB'', ''WR'', ''TE'']
   \<Longrightarrow> map fst (fst (starter_step tp pos st)) = [''QB'', ''RB'', ''WR'', ''TE'', ''FLEX'']"
  by (cases st) (auto simp: starter_step_def Let_def AList.update_keys)

lemma starter_fold_keys:
  "map fst (fst (fold (starter_step tp) [''QB'', ''RB'', ''WR'', ''TE'']
      ([(''QB'', 0), (''RB'', 0), (''WR'', 0), (''TE'', 0), (''FLEX'', 0)], [], [])))
   = [''QB'', ''RB'', ''WR'', ''TE'', ''FLEX'']"
  by (simp add: starter_step_keys)

lemma five_slots:
  assumes "map fst sv = [''QB'', ''RB'', ''WR'', ''TE'', ''FLEX'']"
  shows "\<exists>q r w t f. sv = [(''QB'', q), (''RB'', r), (''WR'', w), (''TE'', t), (''FLEX'', f :: real)]"
  using assms by (auto simp: map_eq_Cons_conv)

lemma total_of_five_slots:
  assumes "map fst sv = [''QB'', ''RB'', ''WR'', ''TE'', ''FLEX'']"
  shows "total_is_sum (AList.update ''TOTAL'' (sum_list (map snd sv)) sv)"
proof -
  from five_slots [OF assms] obtain q r w t f where
    sv: "sv = [(''QB'', q), (''RB'', r), (''WR'', w), (''TE'', t), (''FLEX'', f)]" by blast
  show ?thesis unfolding sv total_is_sum_def by (simp add: entry_def)
qed

lemma total_is_sum_zero: "total_is_sum zero_starter_values"
  by (simp add: total_is_sum_def zero_starter_values_def entry_def)

lemma calculate_starter_values_total_is_sum:
  "total_is_sum (calculate_starter_values roster player_values)"
proof -
  let ?ids = "case players roster of None \<Rightarrow> [] | Some ids \<Rightarrow> ids"
  let ?tp = "filter (\<lambda>r. row_sleeper_id r \<in> set ?ids) player_values"
  show ?thesis
  proof (cases "?ids = [] \<or> ?tp = []")
    case True
    then have "calculate_starter_values roster player_values = zero_starter_values"
      by (auto simp: calculate_starter_values_def Let_def)
    then show ?thesis by (simp add: total_is_sum_zero)
  next
    case False
    let ?st = "fold (starter_step (sort_key (\<lambda>r. (row_position r, - row_value r)) ?tp))
                 [''QB'', ''RB'', ''WR'', ''TE'']
                 ([(''QB'', 0), (''RB'', 0), (''WR'', 0), (''TE'', 0), (''FLEX'', 0)], [], [])"
    let ?sv2 = "if snd (snd ?st) \<noteq> []
                then AList.update ''FLEX''
                       (row_value (hd (sort_key (\<lambda>r. - row_value r) (snd (snd ?st))))) (fst ?st)
                else fst ?st"
    have keys: "map fst ?sv2 = [''QB'', ''RB'', ''WR'', ''TE'', ''FLEX'']"
      using starter_fold_keys by (simp add: AList.update_keys)
    have "calculate_starter_values roster player_values
            = AList.update ''TOTAL'' (sum_list (map snd ?sv2)) ?sv2"
      using False by (simp add: calculate_starter_values_def Let_def)
    then show ?thesis using total_of_five_slots [OF keys] by simp
  qed
qed

lemma calculate_starter_values_unmatched:
  assumes "\<forall>r \<in> set player_values. row_sleeper_id r \<notin> set (case players roster of None \<Rightarrow> [] | Some ids \<Rightarrow> ids)"
  shows "calculate_starter_values roster player_values = zero_starter_values"
proof -
  have "filter (\<lambda>r. row_sleeper_id r \<in> set (case players roster of None \<Rightarrow> [] | Some ids \<Rightarrow> ids))
          player_values = []"
    using assms by (simp add: filter_empty_conv)
  then show ?thesis by (simp add: calculate_starter_values_def Let_def)
qed

text \<open>
  Claim C7. Whatever the roster and the valuation table, the result of
  \<^verbatim>\<open>calculate_starter_values\<close> has the six entries QB, RB, WR, TE, FLEX and TOTAL, and TOTAL is
  the sum of the other five. When no row of the table carries an identifier of the roster
  (the roster is empty, has no \<^verbatim>\<open>players\<close> key, or holds unknown identifiers only), the
  result is the all-zero dictionary; the function has no failing branch.
\<close>

theorem calculate_starter_values_total:
  "total_is_sum (calculate_starter_values roster player_values)
   \<and> ((\<forall>r \<in> set player_values.
          row_sleeper_id r \<notin> set (case players roster of None \<Rightarrow> [] | Some ids \<Rightarrow> ids))
        \<longrightarrow> calculate_starter_values roster player_values
              = [(''QB'', 0), (''RB'', 0), (''WR'', 0), (''TE'', 0), (''FLEX'', 0), (''TOTAL'', 0)])"
  using calculate_starter_values_total_is_sum [of roster player_values]
    calculate_starter_values_unmatched [of player_values roster]
  by (simp add: zero_starter_values_def)

theorem calculate_starter_values_total_witness:
  "total_is_sum (calculate_starter_values \<lparr>players = Some [''9001'', ''9002''], roster_meta = []\<rparr>
      [\<lparr>row_sleeper_id = ''421'', row_position = ''QB'', row_value = 452 / 10\<rparr>])
   \<and> calculate_starter_values \<lparr>players = Some [''9001'', ''9002''], roster_meta = []\<rparr>
        [\<lparr>row_sleeper_id = ''421'', row_position = ''QB'', row_value = 452 / 10\<rparr>]
      = [(''QB'', 0), (''RB'', 0), (''WR'', 0), (''TE'', 0), (''FLEX'', 0), (''TOTAL'', 0)]"
  using calculate_starter_values_total
    [of "\<lparr>players = Some [''9001'', ''9002''], roster_meta = []\<rparr>"
        "[\<lparr>row_sleeper_id = ''421'', row_position = ''QB'', row_value = 452 / 10\<rparr>]"]
  by (simp add: total_is_sum_def entry_def)

section \<open>Needs and surplus\<close>

lemma classify_positions_needs:
  "set (fst (classify_positions ds ps (ns, ss)))
     = set ns \<union> {p \<in> set ps. get_delta ds p < - 2}"
  by (induction ps arbitrary: ns ss) auto

lemma classify_positions_surplus:
  "set (snd (classify_positions ds ps (ns, ss)))
     = set ss \<union> {p \<in> set ps. 2 < get_delta ds p}"
  by (induction ps arbitrary: ns ss) auto

lemma classify_team_needs:
  "set (needs (classify_team ds)) = {p \<in> set tradeable_positions. get_delta ds p < - 2}"
  using classify_positions_needs [of ds tradeable_positions "[]" "[]"]
  by (cases "classify_positions ds tradeable_positions ([], [])") (simp add: classify_team_def)

lemma classify_team_surplus:
  "set (surplus (classify_team ds)) = {p \<in> set tradeable_positions. 2 < get_delta ds p}"
  using classify_positions_surplus [of ds tradeable_positions "[]" "[]"]
  by (cases "classify_positions ds tradeable_positions ([], [])") (simp add: classify_team_def)

lemma classify_team_needs_sorted:
  "sorted (map (get_delta ds) (needs (classify_team ds)))"
  by (simp add: classify_team_def split: prod.splits)

lemma classify_team_surplus_sorted:
  "sorted_wrt (\<lambda>x y. y \<le> x) (map (get_delta ds) (surplus (classify_team ds)))"
proof -
  obtain ns ss where c: "classify_positions ds tradeable_positions ([], []) = (ns, ss)"
    by (cases "classify_positions ds tradeable_positions ([], [])")
  have "sorted (map (\<lambda>pos. - get_delta ds pos) (sort_key (\<lambda>pos. - get_delta ds pos) ss))"
    by (rule sorted_sort_key)
  then have "sorted_wrt (\<lambda>x y. y \<le> x) (map (get_delta ds) (sort_key (\<lambda>pos. - get_delta ds pos) ss))"
    by (simp add: sorted_wrt_map)
  then show ?thesis by (simp add: classify_team_def c)
qed

text \<open>
  Claim C6. For a team with deltas \<open>ds\<close> (a missing position reads as 0.0), a position of
  QB, RB, WR, TE, FLEX is in the needs list exactly when its delta is below -2.0 and in the
  surplus list exactly when its delta is above 2.0, so a delta of exactly -2.0 or 2.0 is in
  neither; both lists hold tradeable positions only; the needs list is ascending in the
  delta (most negative first) and the surplus list is descending (most positive first).
\<close>

theorem identify_needs_surplus_classification:
  assumes "team_deltas team_name = Some ds"
  shows "\<exists>r. identify_needs_surplus team_deltas team_name = Some r
     \<and> (\<forall>pos \<in> set [''QB'', ''RB'', ''WR'', ''TE'', ''FLEX''].
           (pos \<in> set (needs r) \<longleftrightarrow> get_delta ds pos < - 2)
         \<and> (pos \<in> set (surplus r) \<longleftrightarrow> 2 < get_delta ds pos))
     \<and> set (needs r) \<subseteq> set [''QB'', ''RB'', ''WR'', ''TE'', ''FLEX'']
     \<and> set (surplus r) \<subseteq> set [''QB'', ''RB'', ''WR'', ''TE'', ''FLEX'']
     \<and> sorted (map (get_delta ds) (needs r))
     \<and> sorted_wrt (\<lambda>x y. y \<le> x) (map (get_delta ds) (surplus r))"
proof -
  have r: "identify_needs_surplus team_deltas team_name = Some (classify_team ds)"
    using assms by (simp add: identify_needs_surplus_def)
  have n: "set (needs (classify_team ds))
             = {p \<in> set [''QB'', ''RB'', ''WR'', ''TE'', ''FLEX'']. get_delta ds p < - 2}"
    using classify_team_needs [of ds] by (simp add: tradeable_positions_def)
  have s: "set (surplus (classify_team ds))
             = {p \<in> set [''QB'', ''RB'', ''WR'', ''TE'', ''FLEX'']. 2 < get_delta ds p}"
    using classify_team_surplus [of ds] by (simp add: tradeable_positions_def)
  have m: "\<forall>pos \<in> set [''QB'', ''RB'', ''WR'', ''TE'', ''FLEX''].
           (pos \<in> set (needs (classify_team ds)) \<longleftrightarrow> get_delta ds pos < - 2)
         \<and> (pos \<in> set (surplus (classify_team ds)) \<longleftrightarrow> 2 < get_delta ds pos)"
    unfolding n s by blast
  have sub: "set (needs (classify_team ds)) \<subseteq> set [''QB'', ''RB'', ''WR'', ''TE'', ''FLEX'']"
    "set (surplus (classify_team ds)) \<subseteq> set [''QB'', ''RB'', ''WR'', ''TE'', ''FLEX'']"
    unfolding n s by blast+
  show ?thesis
    using r m sub classify_team_needs_sorted [of ds] classify_team_surplus_sorted [of ds]
    by blast
qed

theorem identify_needs_surplus_classification_witness:
  "\<exists>r. identify_needs_surplus
          [''Team1'' \<mapsto> [''QB'' \<mapsto> - 2, ''RB'' \<mapsto> - 5 / 2, ''WR'' \<mapsto> 2, ''TE'' \<mapsto> 3]] ''Team1'' = Some r
     \<and> ''RB'' \<in> set (needs r) \<and> ''QB'' \<notin> set (needs r)
     \<and> ''TE'' \<in> set (surplus r) \<and> ''WR'' \<notin> set (surplus r)"
  using identify_needs_surplus_classification
    [of "[''Team1'' \<mapsto> [''QB'' \<mapsto> - 2, ''RB'' \<mapsto> - 5 / 2, ''WR'' \<mapsto> 2, ''TE'' \<mapsto> 3]]" "''Team1''"
        "[''QB'' \<mapsto> - 2, ''RB'' \<mapsto> - 5 / 2, ''WR'' \<mapsto> 2, ''TE'' \<mapsto> 3]"]
  by (auto simp: get_delta_def)

section \<open>Perfect matching\<close>

text \<open>
  Claim C9. \<^verbatim>\<open>find_perfect_matching\<close> returns \<^verbatim>\<open>None\<close> when the number of nodes differs
  from the target, when it is odd, when the matching has fewer pairs than half the target,
  and also when its \<^verbatim>\<open>try\<close> block raises: every exception becomes the result \<^verbatim>\<open>None\<close>.
\<close>

theorem find_perfect_matching_no_solution:
  assumes "int (length (nodes G)) \<noteq> target_teams
         \<or> odd (length (nodes G))
         \<or> int (length (mwm G True)) < target_teams div 2
         \<or> find_perfect_matching_try mwm G target_teams = Inl e"
  shows "find_perfect_matching mwm G target_teams = None"
  using assms
  by (auto simp: find_perfect_matching_def find_perfect_matching_try_def Let_def odd_iff_mod_2_eq_one
           split: sum.splits)

theorem find_perfect_matching_no_solution_witness:
  "find_perfect_matching (\<lambda>G b. [(''A'', ''B'')])
     (build_trade_graph [validated_trade ''A'' ''B'' 4 4 5 3, validated_trade ''B'' ''C'' 4 4 5 3]) 3 = None"
  using find_perfect_matching_no_solution
    [of "build_trade_graph [validated_trade ''A'' ''B'' 4 4 5 3, validated_trade ''B'' ''C'' 4 4 5 3]" 3
        "\<lambda>G b. [(''A'', ''B'')]"]
  by (simp add: build_trade_graph_def add_edge_def add_node_def validated_trade_def)

section \<open>The relaxation ladder\<close>

lemma build_empty_nodes: "nodes (build_trade_graph []) = []"
  by (simp add: build_trade_graph_def)

lemma fpm_empty: "find_perfect_matching mwm (build_trade_graph []) TOTAL_TEAMS = None"
  by (simp add: find_perfect_matching_def find_perfect_matching_try_def build_empty_nodes TOTAL_TEAMS_def)

lemma rung:
  "(let relaxed = X;
        result = (if relaxed \<noteq> [] then find_perfect_matching mwm (build_trade_graph relaxed) TOTAL_TEAMS
                  else None)
    in if truthy result then Inr result else rest)
   = (case rebuild_and_match mwm X of Some r \<Rightarrow> Inr (Some r) | None \<Rightarrow> rest)"
  by (auto simp: Let_def truthy_def rebuild_and_match_def fpm_empty split: option.splits)

lemma relax_as_ladder:
  "relax_constraints_and_retry mwm valid_trades team_rosters player_values =
     (case first_success (\<lambda>s. rebuild_and_match mwm (s valid_trades))
             (ladder_strategies team_rosters player_values) of
        Some r \<Rightarrow> Inr (Some r)
      | None \<Rightarrow>
          (case find_best_partial_matching mwm valid_trades of
             Inl e \<Rightarrow> Inl e
           | Inr partial_result \<Rightarrow> if truthy partial_result then Inr partial_result else Inr None))"
  unfolding relax_constraints_and_retry_def rung ladder_strategies_def
  by (simp split: option.splits)



lemma adj_add_trade_edges_data:
  "adj (add_trade_edges i ts G) p = Some d \<Longrightarrow> adj G p = Some d \<or> trade_data d \<in> set ts"
  by (induction ts arbitrary: i G) (fastforce simp: add_edge_def split: if_splits)+

lemma adj_build_data:
  "adj (build_trade_graph ts) p = Some d \<Longrightarrow> trade_data d \<in> set ts"
  by (auto simp: build_trade_graph_def Let_def dest!: adj_add_trade_edges_data)

lemma extract_trades_data:
  "extract_trades G ms = Inr sel \<Longrightarrow> \<forall>t \<in> set sel. \<exists>p d. adj G p = Some d \<and> trade_data d = t"
proof (induction ms arbitrary: sel)
  case Nil then show ?case by simp
next
  case (Cons m ms)
  obtain a b where m: "m = (a, b)" by (cases m)
  from Cons.prems obtain d ts where d: "adj G (a, b) = Some d" and ts: "extract_trades G ms = Inr ts"
    and sel: "sel = trade_data d # ts"
    by (auto simp: m split: option.splits sum.splits)
  show ?case using Cons.IH [OF ts] d sel by auto
qed

lemma fpm_subset:
  assumes "find_perfect_matching mwm (build_trade_graph ts) n = Some sel"
  shows "set sel \<subseteq> set ts"
proof -
  from assms have "extract_trades (build_trade_graph ts) (mwm (build_trade_graph ts) True) = Inr sel"
    by (auto simp: find_perfect_matching_def find_perfect_matching_try_def Let_def
             split: sum.splits if_splits)
  from extract_trades_data [OF this] show ?thesis by (auto dest: adj_build_data)
qed

lemma partial_subset:
  assumes "find_best_partial_matching mwm ts = Inr (Some sel)"
  shows "set sel \<subseteq> set ts"
proof -
  from assms have "extract_trades (build_trade_graph ts) (mwm (build_trade_graph ts) False) = Inr sel"
    by (auto simp: find_best_partial_matching_def Let_def split: sum.splits if_splits)
  from extract_trades_data [OF this] show ?thesis by (auto dest: adj_build_data)
qed

lemma first_success_Some:
  "first_success f xs = Some y \<Longrightarrow> \<exists>x \<in> set xs. f x = Some y"
  by (induction xs) (auto split: option.splits)

lemma rebuild_subset:
  "rebuild_and_match mwm ts = Some sel \<Longrightarrow> set sel \<subseteq> set ts"
  using fpm_subset [of mwm ts TOTAL_TEAMS] by (auto simp: rebuild_and_match_def split: option.splits if_splits)

lemma ladder_subset:
  "s \<in> set (ladder_strategies tr pv) \<Longrightarrow> set (s ts) \<subseteq> set ts"
  by (auto simp: ladder_strategies_def widen_fairness_threshold_def lower_starter_gain_threshold_def
        allow_uneven_trades_def)

lemma relax_subset:
  assumes "relax_constraints_and_retry mwm vt tr pv = Inr (Some sel)"
  shows "set sel \<subseteq> set vt"
proof (cases "first_success (\<lambda>s. rebuild_and_match mwm (s vt)) (ladder_strategies tr pv)")
  case None
  with assms have "find_best_partial_matching mwm vt = Inr (Some sel)"
    by (auto simp: relax_as_ladder split: sum.splits if_splits)
  then show ?thesis by (rule partial_subset)
next
  case (Some r)
  with assms have "r = sel" by (simp add: relax_as_ladder)
  with first_success_Some [OF Some] obtain s where "s \<in> set (ladder_strategies tr pv)"
    and "rebuild_and_match mwm (s vt) = Some sel" by blast
  then show ?thesis using rebuild_subset ladder_subset by blast
qed

lemma candidate_subset:
  assumes "candidate_selection mwm vt tr pv = Inr (Some sel)"
  shows "set sel \<subseteq> set vt"
  using assms relax_subset [of mwm vt tr pv sel] fpm_subset [of mwm vt TOTAL_TEAMS sel]
  by (auto simp: candidate_selection_def Let_def split: if_splits)

lemma select_as_candidate:
  "select_optimal_trades mwm vt tr pv =
     (if vt = [] then Inr []
      else (case candidate_selection mwm vt tr pv of
              Inl e \<Rightarrow> Inl e
            | Inr None \<Rightarrow> Inr []
            | Inr (Some c) \<Rightarrow>
                if c \<noteq> [] \<and> snd (validate_matching_constraints c) then Inr c else Inr []))"
  by (auto simp: select_optimal_trades_def candidate_selection_def Let_def truthy_def
           split: sum.splits option.splits)

lemma check_teams_None:
  "check_teams c acc = None \<longleftrightarrow>
     (\<exists>t \<in> set c. team_a t \<in> set acc \<or> team_b t \<in> set acc) \<or> team_in_two_trades c"
  by (induction c arbitrary: acc) (auto simp: add_node_def)

lemma check_teams_distinct:
  "check_teams c acc = Some r \<Longrightarrow> \<forall>t \<in> set c. team_a t \<noteq> team_b t
   \<Longrightarrow> distinct (selection_teams c) \<and> set (selection_teams c) \<inter> set acc = {}"
proof (induction c arbitrary: acc)
  case Nil then show ?case by (simp add: selection_teams_def)
next
  case (Cons t ts)
  from Cons.prems(1) have fresh: "team_a t \<notin> set acc" "team_b t \<notin> set acc"
    and rec: "check_teams ts (add_node (team_b t) (add_node (team_a t) acc)) = Some r"
    by (auto split: if_splits)
  from Cons.IH [OF rec] Cons.prems(2)
  have ih: "distinct (selection_teams ts)"
    "set (selection_teams ts) \<inter> set (add_node (team_b t) (add_node (team_a t) acc)) = {}"
    by auto
  have acc': "set (add_node (team_b t) (add_node (team_a t) acc)) = {team_a t, team_b t} \<union> set acc"
    by (auto simp: add_node_def)
  have st: "selection_teams (t # ts) = team_a t # team_b t # selection_teams ts"
    by (simp add: selection_teams_def)
  show ?case using ih fresh Cons.prems(2) unfolding acc' st by auto
qed

lemma validate_True_iff:
  "snd (validate_matching_constraints c) \<longleftrightarrow> c \<noteq> [] \<and> \<not> team_in_two_trades c"
proof (cases "check_teams c []")
  case None
  then show ?thesis using check_teams_None [of c "[]"] by (simp add: validate_matching_constraints_def)
next
  case (Some r)
  then show ?thesis using check_teams_None [of c "[]"] by (simp add: validate_matching_constraints_def)
qed



text \<open>
  Claim C3. On a list whose trades all have \<^verbatim>\<open>value_delta_pct\<close> at most 12.0 and both
  gains at least 3.0, the 15% and 20% fairness relaxations and the starter-gain relaxation
  to 1.0 return the list unchanged, so the graph rebuilt at strategies 1 to 3 is the graph
  of the first attempt and holds no trade from outside the list.
\<close>

theorem relaxations_keep_validated_trades:
  assumes "\<forall>t \<in> set trades. get_or 0 (value_delta_pct t) \<le> 12
              \<and> 3 \<le> get_or 0 (team_a_gain t) \<and> 3 \<le> get_or 0 (team_b_gain t)"
  shows "widen_fairness_threshold trades (15 / 100) = trades
       \<and> widen_fairness_threshold trades (20 / 100) = trades
       \<and> lower_starter_gain_threshold trades 1 = trades
       \<and> build_trade_graph (widen_fairness_threshold trades (15 / 100)) = build_trade_graph trades
       \<and> build_trade_graph (widen_fairness_threshold trades (20 / 100)) = build_trade_graph trades
       \<and> build_trade_graph (lower_starter_gain_threshold trades 1) = build_trade_graph trades"
proof -
  have w: "widen_fairness_threshold trades (15 / 100) = trades"
    "widen_fairness_threshold trades (20 / 100) = trades"
    using assms by (auto simp: widen_fairness_threshold_def filter_id_conv)
  have l: "lower_starter_gain_threshold trades 1 = trades"
    using assms by (auto simp: lower_starter_gain_threshold_def filter_id_conv)
  show ?thesis using w l by simp
qed

theorem relaxations_keep_validated_trades_witness:
  "widen_fairness_threshold [validated_trade ''A'' ''B'' 4 5 12 3] (15 / 100)
     = [validated_trade ''A'' ''B'' 4 5 12 3]
   \<and> lower_starter_gain_threshold [validated_trade ''A'' ''B'' 4 5 12 3] 1
     = [validated_trade ''A'' ''B'' 4 5 12 3]"
  using relaxations_keep_validated_trades [of "[validated_trade ''A'' ''B'' 4 5 12 3]"]
  by (simp add: validated_trade_def get_or_def)

section \<open>Validation of the selection\<close>

lemma check_teams_result:
  "check_teams c acc = Some r \<Longrightarrow> distinct acc
   \<Longrightarrow> distinct r \<and> set r = set acc \<union> set (selection_teams c)"
proof (induction c arbitrary: acc)
  case Nil then show ?case by (simp add: selection_teams_def)
next
  case (Cons t ts)
  from Cons.prems(1) have rec: "check_teams ts (add_node (team_b t) (add_node (team_a t) acc)) = Some r"
    by (auto split: if_splits)
  have d: "distinct (add_node (team_b t) (add_node (team_a t) acc))"
    using Cons.prems(2) by (auto simp: add_node_def)
  from Cons.IH [OF rec d] show ?case by (auto simp: add_node_def selection_teams_def)
qed

lemma validate_warnings_only:
  assumes "c \<noteq> []" "\<not> team_in_two_trades c"
  shows "validate_matching_constraints c = (expected_messages c, True)"
proof -
  from assms(2) obtain r where r: "check_teams c [] = Some r"
    using check_teams_None [of c "[]"] by (cases "check_teams c []") auto
  from check_teams_result [OF r] have "length r = card (set (selection_teams c))"
    using distinct_card [of r] by simp
  then show ?thesis using assms(1) r
    by (simp add: validate_matching_constraints_def expected_messages_def MAX_TRADES_PER_WEEK_def
          TOTAL_TEAMS_def)
qed

lemma select_no_team_twice:
  assumes "select_optimal_trades mwm vt tr pv = Inr sel"
  shows "\<not> team_in_two_trades sel"
  using assms validate_True_iff
  by (auto simp: select_as_candidate split: if_splits sum.splits option.splits)

lemma select_subset:
  assumes "select_optimal_trades mwm vt tr pv = Inr sel"
  shows "set sel \<subseteq> set vt"
  using assms candidate_subset [of mwm vt tr pv]
  by (auto simp: select_as_candidate split: if_splits sum.splits option.splits)

lemma no_two_trades_distinct:
  assumes "\<not> team_in_two_trades c" "\<forall>t \<in> set c. team_a t \<noteq> team_b t"
  shows "distinct (selection_teams c)"
proof -
  from assms(1) obtain r where r: "check_teams c [] = Some r"
    using check_teams_None [of c "[]"] by (cases "check_teams c []") auto
  from check_teams_distinct [OF r assms(2)] show ?thesis by simp
qed

lemma add_edge_join_teams:
  assumes "edges_join_teams G" "{team_a (trade_data d), team_b (trade_data d)} = {a, b}"
  shows "edges_join_teams (add_edge a b d G)"
  unfolding edges_join_teams_def
proof (intro allI impI)
  fix u v e assume e: "adj (add_edge a b d G) (u, v) = Some e"
  show "{team_a (trade_data e), team_b (trade_data e)} = {u, v}"
  proof (cases "(u, v) = (b, a)")
    case True
    then have "e = d" using e by (simp add: add_edge_def)
    then show ?thesis using assms(2) True by auto
  next
    case False
    note nba = this
    show ?thesis
    proof (cases "(u, v) = (a, b)")
      case True
      then have "e = d" using e nba by (simp add: add_edge_def)
      then show ?thesis using assms(2) True by auto
    next
      case False
      then have "adj G (u, v) = Some e" using e nba by (auto simp: add_edge_def split: if_splits)
      then show ?thesis using assms(1) by (simp add: edges_join_teams_def)
    qed
  qed
qed

lemma add_trade_edges_join_teams:
  "edges_join_teams G \<Longrightarrow> edges_join_teams (add_trade_edges i ts G)"
proof (induction ts arbitrary: i G)
  case Nil then show ?case by simp
next
  case (Cons t ts)
  have "edges_join_teams (add_edge (team_a t) (team_b t)
          \<lparr> weight = get_or 0 (trade_score t), trade_id = i, trade_data = t \<rparr> G)"
    by (rule add_edge_join_teams [OF Cons.prems]) simp
  then show ?case using Cons.IH by simp
qed

lemma build_join_teams: "edges_join_teams (build_trade_graph ts)"
  unfolding build_trade_graph_def Let_def
  by (rule add_trade_edges_join_teams) (simp add: edges_join_teams_def)

lemma extract_trades_two_teams:
  assumes "extract_trades G ms = Inr sel" "edges_join_teams G" "\<forall>(u, v) \<in> set ms. u \<noteq> v"
  shows "\<forall>t \<in> set sel. team_a t \<noteq> team_b t"
  using assms
proof (induction ms arbitrary: sel)
  case Nil then show ?case by simp
next
  case (Cons m ms)
  obtain a b where m: "m = (a, b)" by (cases m)
  from Cons.prems(1) obtain d ts where d: "adj G (a, b) = Some d"
    and ts: "extract_trades G ms = Inr ts" and sel: "sel = trade_data d # ts"
    by (auto simp: m split: option.splits sum.splits)
  have ab: "a \<noteq> b" using Cons.prems(3) m by simp
  have "{team_a (trade_data d), team_b (trade_data d)} = {a, b}"
    using Cons.prems(2) d by (simp add: edges_join_teams_def)
  then have "team_a (trade_data d) \<noteq> team_b (trade_data d)" using ab by (auto simp: doubleton_eq_iff)
  moreover have "\<forall>t \<in> set ts. team_a t \<noteq> team_b t"
    using Cons.IH [OF ts Cons.prems(2)] Cons.prems(3) by simp
  ultimately show ?case using sel by simp
qed

lemma fpm_two_teams:
  assumes "find_perfect_matching mwm (build_trade_graph ts) n = Some sel" "no_self_pairs mwm"
  shows "\<forall>t \<in> set sel. team_a t \<noteq> team_b t"
proof -
  from assms(1) have e: "extract_trades (build_trade_graph ts) (mwm (build_trade_graph ts) True) = Inr sel"
    by (auto simp: find_perfect_matching_def find_perfect_matching_try_def Let_def
             split: sum.splits if_splits)
  have "\<forall>(u, v) \<in> set (mwm (build_trade_graph ts) True). u \<noteq> v"
    using assms(2) by (simp add: no_self_pairs_def)
  from extract_trades_two_teams [OF e build_join_teams this] show ?thesis .
qed

lemma partial_two_teams:
  assumes "find_best_partial_matching mwm ts = Inr (Some sel)" "no_self_pairs mwm"
  shows "\<forall>t \<in> set sel. team_a t \<noteq> team_b t"
proof -
  from assms(1) have e: "extract_trades (build_trade_graph ts) (mwm (build_trade_graph ts) False) = Inr sel"
    by (auto simp: find_best_partial_matching_def Let_def split: sum.splits if_splits)
  have "\<forall>(u, v) \<in> set (mwm (build_trade_graph ts) False). u \<noteq> v"
    using assms(2) by (simp add: no_self_pairs_def)
  from extract_trades_two_teams [OF e build_join_teams this] show ?thesis .
qed

lemma rebuild_two_teams:
  "rebuild_and_match mwm ts = Some sel \<Longrightarrow> no_self_pairs mwm \<Longrightarrow> \<forall>t \<in> set sel. team_a t \<noteq> team_b t"
  using fpm_two_teams [of mwm ts TOTAL_TEAMS]
  by (auto simp: rebuild_and_match_def split: option.splits if_splits)

lemma relax_two_teams:
  assumes "relax_constraints_and_retry mwm vt tr pv = Inr (Some sel)" "no_self_pairs mwm"
  shows "\<forall>t \<in> set sel. team_a t \<noteq> team_b t"
proof (cases "first_success (\<lambda>s. rebuild_and_match mwm (s vt)) (ladder_strategies tr pv)")
  case None
  with assms(1) have "find_best_partial_matching mwm vt = Inr (Some sel)"
    by (auto simp: relax_as_ladder split: sum.splits if_splits)
  then show ?thesis using assms(2) by (rule partial_two_teams)
next
  case (Some r)
  with assms(1) have "r = sel" by (simp add: relax_as_ladder)
  with first_success_Some [OF Some] obtain s where
    "rebuild_and_match mwm (s vt) = Some sel" by blast
  then show ?thesis using assms(2) by (rule rebuild_two_teams)
qed

lemma candidate_two_teams:
  assumes "candidate_selection mwm vt tr pv = Inr (Some sel)" "no_self_pairs mwm"
  shows "\<forall>t \<in> set sel. team_a t \<noteq> team_b t"
  using assms relax_two_teams [of mwm vt tr pv sel] fpm_two_teams [of mwm vt TOTAL_TEAMS sel]
  by (auto simp: candidate_selection_def Let_def split: if_splits)

lemma select_two_teams:
  assumes "select_optimal_trades mwm vt tr pv = Inr sel" "no_self_pairs mwm"
  shows "\<forall>t \<in> set sel. team_a t \<noteq> team_b t"
  using assms candidate_two_teams [of mwm vt tr pv]
  by (auto simp: select_as_candidate split: if_splits sum.splits option.splits)

text \<open>
  Claim C4. With a matcher whose pairs join two different nodes, the team identifiers of a
  selection returned by \<^verbatim>\<open>select_optimal_trades\<close> are pairwise distinct, whatever the
  input list. With any matcher, a returned selection has no team in two of its trades. A
  candidate selection with a team in two trades is discarded and the empty list returned.
  A non-empty candidate selection without such a team is returned as it is, whatever its
  number of trades and of teams: the validation then only prints the trade-count and
  coverage warnings.
\<close>

theorem selection_has_no_duplicate_team:
  "(\<forall>sel. no_self_pairs mwm \<and> select_optimal_trades mwm vt tr pv = Inr sel \<longrightarrow>
       distinct (selection_teams sel))
   \<and> (\<forall>sel. select_optimal_trades mwm vt tr pv = Inr sel \<longrightarrow> \<not> team_in_two_trades sel)
   \<and> (\<forall>c. vt \<noteq> [] \<and> candidate_selection mwm vt tr pv = Inr (Some c) \<and> team_in_two_trades c \<longrightarrow>
         select_optimal_trades mwm vt tr pv = Inr [])
   \<and> (\<forall>c. vt \<noteq> [] \<and> candidate_selection mwm vt tr pv = Inr (Some c) \<and> c \<noteq> []
          \<and> \<not> team_in_two_trades c \<longrightarrow>
         select_optimal_trades mwm vt tr pv = Inr c
       \<and> validate_matching_constraints c = (expected_messages c, True))"
proof (intro conjI allI impI)
  fix sel assume s: "no_self_pairs mwm \<and> select_optimal_trades mwm vt tr pv = Inr sel"
  then have n: "\<not> team_in_two_trades sel" using select_no_team_twice by blast
  have "\<forall>t \<in> set sel. team_a t \<noteq> team_b t" using s select_two_teams by blast
  with n show "distinct (selection_teams sel)" by (rule no_two_trades_distinct)
next
  fix sel assume "select_optimal_trades mwm vt tr pv = Inr sel"
  then show "\<not> team_in_two_trades sel" by (rule select_no_team_twice)
next
  fix c assume "vt \<noteq> [] \<and> candidate_selection mwm vt tr pv = Inr (Some c) \<and> team_in_two_trades c"
  then show "select_optimal_trades mwm vt tr pv = Inr []"
    by (simp add: select_as_candidate validate_True_iff)
next
  fix c assume a: "vt \<noteq> [] \<and> candidate_selection mwm vt tr pv = Inr (Some c) \<and> c \<noteq> []
          \<and> \<not> team_in_two_trades c"
  then show "select_optimal_trades mwm vt tr pv = Inr c"
    by (simp add: select_as_candidate validate_True_iff)
  from a show "validate_matching_constraints c = (expected_messages c, True)"
    by (simp add: validate_warnings_only)
qed

lemma example_matchers:
  "no_self_pairs (\<lambda>G b. if b then [] else [(''A'', ''B'')])"
  "no_self_pairs (\<lambda>G b. if b then [] else [(''A'', ''B''), (''B'', ''C'')])"
  by (simp_all add: no_self_pairs_def)

theorem selection_has_no_duplicate_team_witness:
  "select_optimal_trades (\<lambda>G b. if b then [] else [(''A'', ''B'')])
       [validated_trade ''A'' ''B'' 4 4 5 3] Map.empty []
     = Inr [validated_trade ''A'' ''B'' 4 4 5 3]
   \<and> distinct (selection_teams [validated_trade ''A'' ''B'' 4 4 5 3])
   \<and> validate_matching_constraints [validated_trade ''A'' ''B'' 4 4 5 3]
       = ([TradeCountWarning 1 6, TeamCoverageWarning 2 12], True)
   \<and> select_optimal_trades (\<lambda>G b. if b then [] else [(''A'', ''B''), (''B'', ''C'')])
       [validated_trade ''A'' ''B'' 4 4 5 3, validated_trade ''B'' ''C'' 4 4 5 3] Map.empty []
     = Inr []"
proof -
  let ?ab = "validated_trade ''A'' ''B'' 4 4 5 3"
  let ?bc = "validated_trade ''B'' ''C'' 4 4 5 3"
  let ?m1 = "\<lambda>(G :: graph) b. if b then [] else [(''A'', ''B'')]"
  let ?m2 = "\<lambda>(G :: graph) b. if b then [] else [(''A'', ''B''), (''B'', ''C'')]"
  have c1: "candidate_selection ?m1 [?ab] Map.empty [] = Inr (Some [?ab])"
    by (simp add: candidate_selection_def find_perfect_matching_def
          find_perfect_matching_try_def relax_constraints_and_retry_def widen_fairness_threshold_def
          lower_starter_gain_threshold_def allow_uneven_trades_def build_trade_graph_def add_edge_def
          add_node_def find_best_partial_matching_def truthy_def TOTAL_TEAMS_def Let_def
          validated_trade_def get_or_def)
  have c2: "candidate_selection ?m2 [?ab, ?bc] Map.empty [] = Inr (Some [?ab, ?bc])"
    by (simp add: candidate_selection_def find_perfect_matching_def
          find_perfect_matching_try_def relax_constraints_and_retry_def widen_fairness_threshold_def
          lower_starter_gain_threshold_def allow_uneven_trades_def build_trade_graph_def add_edge_def
          add_node_def find_best_partial_matching_def truthy_def TOTAL_TEAMS_def Let_def
          validated_trade_def get_or_def)
  have t1: "\<not> team_in_two_trades [?ab]" by simp
  have t2: "team_in_two_trades [?ab, ?bc]" by (simp add: validated_trade_def)
  have e1: "expected_messages [?ab] = [TradeCountWarning 1 6, TeamCoverageWarning 2 12]"
    by (simp add: expected_messages_def selection_teams_def validated_trade_def)
  from selection_has_no_duplicate_team [of ?m1 "[?ab]" Map.empty "[]"] c1 t1 example_matchers(1)
  have r1: "select_optimal_trades ?m1 [?ab] Map.empty [] = Inr [?ab]"
    "distinct (selection_teams [?ab])"
    "validate_matching_constraints [?ab] = (expected_messages [?ab], True)"
    by auto
  from selection_has_no_duplicate_team [of ?m2 "[?ab, ?bc]" Map.empty "[]"] c2 t2
  have r2: "select_optimal_trades ?m2 [?ab, ?bc] Map.empty [] = Inr []"
    by auto
  show ?thesis using r1 r2 e1 by simp
qed

section \<open>Fairness and score\<close>

lemma py_round1_nonneg: "0 \<le> x \<Longrightarrow> 0 \<le> py_round1 x"
proof -
  assume "0 \<le> x"
  then have "0 \<le> \<lfloor>x * 10\<rfloor>" by simp
  then show ?thesis by (simp add: py_round1_def Let_def)
qed

lemma side_value_sum:
  "calculate_trade_side_value ps pv = sum_list (map (player_trade_value pv) ps)"
proof -
  have "\<And>acc. fold (\<lambda>p total_value. total_value + player_trade_value pv p) ps acc
           = acc + sum_list (map (player_trade_value pv) ps)"
  proof -
    fix acc show "fold (\<lambda>p total_value. total_value + player_trade_value pv p) ps acc
           = acc + sum_list (map (player_trade_value pv) ps)"
      by (induction ps arbitrary: acc) simp_all
  qed
  then show ?thesis by (simp add: calculate_trade_side_value_def)
qed

lemma player_trade_value_nonneg:
  assumes "\<forall>r \<in> set pv. 0 \<le> row_value r" "0 \<le> get_or 0 (pvalue p)"
  shows "0 \<le> player_trade_value pv p"
  using assms
  by (auto simp: player_trade_value_def find_Some_iff split: option.splits)

lemma side_value_nonneg:
  assumes "\<forall>r \<in> set pv. 0 \<le> row_value r" "\<forall>p \<in> set ps. 0 \<le> get_or 0 (pvalue p)"
  shows "0 \<le> calculate_trade_side_value ps pv"
  unfolding side_value_sum using assms
  by (intro sum_list_nonneg) (auto simp: player_trade_value_nonneg)

lemma fairness_pct_nonneg:
  fixes a b :: real
  assumes "0 \<le> a" "0 \<le> b"
  shows "0 \<le> \<bar>a - b\<bar> / max a b * 100"
  using assms by (simp add: max_def)

lemma check_fairness_zero:
  assumes "calculate_trade_side_value (team_a_sends trade) pv = 0
         \<or> calculate_trade_side_value (team_b_sends trade) pv = 0"
  shows "check_fairness_constraint trade pv = (False, 100)"
  using assms by (auto simp: check_fairness_constraint_def Let_def)

lemma check_fairness_nonzero:
  assumes "calculate_trade_side_value (team_a_sends trade) pv = a" "a \<noteq> 0"
    and "calculate_trade_side_value (team_b_sends trade) pv = b" "b \<noteq> 0"
  shows "check_fairness_constraint trade pv
           = (\<bar>a - b\<bar> / max a b * 100 \<le> 12, py_round1 (\<bar>a - b\<bar> / max a b * 100))"
  using assms by (simp add: check_fairness_constraint_def Let_def FAIRNESS_THRESHOLD_def)

text \<open>
  Claim C5, in the form the source satisfies. With \<open>a\<close> and \<open>b\<close> the summed values of the
  two sides: when one of them is 0 the gate fails and reports 100.0; otherwise the reported \<^verbatim>\<open>value_delta_pct\<close> is
  \<open>|a - b| / max a b * 100\<close> rounded to one decimal, and the gate passes exactly when the
  percentage before rounding is at most 12. So the gate fails exactly when a side sums to 0
  or the unrounded percentage exceeds 12. The reported value is never negative when no
  value of the index or of a player record is negative. A side value is the sum over its
  players of the index value of the player's identifier, and of the value on the player
  record when the identifier is missing, empty or not in the index.
\<close>

theorem fairness_gate:
  assumes "a = calculate_trade_side_value (team_a_sends trade) pv"
    and "b = calculate_trade_side_value (team_b_sends trade) pv"
  shows "(a = 0 \<or> b = 0 \<longrightarrow> check_fairness_constraint trade pv = (False, 100))
       \<and> (a \<noteq> 0 \<and> b \<noteq> 0 \<longrightarrow>
            snd (check_fairness_constraint trade pv) = py_round1 (\<bar>a - b\<bar> / max a b * 100)
          \<and> (fst (check_fairness_constraint trade pv) \<longleftrightarrow> \<bar>a - b\<bar> / max a b * 100 \<le> 12))
       \<and> (\<not> fst (check_fairness_constraint trade pv) \<longleftrightarrow>
            a = 0 \<or> b = 0 \<or> 12 < \<bar>a - b\<bar> / max a b * 100)
       \<and> ((\<forall>r \<in> set pv. 0 \<le> row_value r)
            \<and> (\<forall>p \<in> set (team_a_sends trade @ team_b_sends trade). 0 \<le> get_or 0 (pvalue p))
          \<longrightarrow> 0 \<le> snd (check_fairness_constraint trade pv))
       \<and> a = sum_list (map (player_trade_value pv) (team_a_sends trade))
       \<and> b = sum_list (map (player_trade_value pv) (team_b_sends trade))
       \<and> (\<forall>p sid r. sleeper_id p = Some sid \<and> sid \<noteq> []
              \<and> find (\<lambda>r. row_sleeper_id r = sid) pv = Some r
            \<longrightarrow> player_trade_value pv p = row_value r)
       \<and> (\<forall>p. sleeper_id p = None \<or> sleeper_id p = Some []
              \<or> (\<forall>r \<in> set pv. Some (row_sleeper_id r) \<noteq> sleeper_id p)
            \<longrightarrow> player_trade_value pv p = get_or 0 (pvalue p))"
proof -
  have z: "a = 0 \<or> b = 0 \<longrightarrow> check_fairness_constraint trade pv = (False, 100)"
    using assms check_fairness_zero [of trade pv] by auto
  have nz: "a \<noteq> 0 \<and> b \<noteq> 0 \<longrightarrow> check_fairness_constraint trade pv
           = (\<bar>a - b\<bar> / max a b * 100 \<le> 12, py_round1 (\<bar>a - b\<bar> / max a b * 100))"
    using assms check_fairness_nonzero [of trade pv a b] by auto
  have gate: "\<not> fst (check_fairness_constraint trade pv) \<longleftrightarrow>
            a = 0 \<or> b = 0 \<or> 12 < \<bar>a - b\<bar> / max a b * 100"
    using z nz by (cases "a = 0 \<or> b = 0") auto
  have nonneg: "(\<forall>r \<in> set pv. 0 \<le> row_value r)
            \<and> (\<forall>p \<in> set (team_a_sends trade @ team_b_sends trade). 0 \<le> get_or 0 (pvalue p))
          \<longrightarrow> 0 \<le> snd (check_fairness_constraint trade pv)"
  proof
    assume h: "(\<forall>r \<in> set pv. 0 \<le> row_value r)
            \<and> (\<forall>p \<in> set (team_a_sends trade @ team_b_sends trade). 0 \<le> get_or 0 (pvalue p))"
    then have ab: "0 \<le> a" "0 \<le> b"
      using assms side_value_nonneg [of pv "team_a_sends trade"]
        side_value_nonneg [of pv "team_b_sends trade"] by auto
    show "0 \<le> snd (check_fairness_constraint trade pv)"
    proof (cases "a = 0 \<or> b = 0")
      case True then show ?thesis using z by simp
    next
      case False
      then show ?thesis using nz py_round1_nonneg [OF fairness_pct_nonneg [OF ab]] by simp
    qed
  qed
  have found: "\<forall>p sid r. sleeper_id p = Some sid \<and> sid \<noteq> []
              \<and> find (\<lambda>r. row_sleeper_id r = sid) pv = Some r
            \<longrightarrow> player_trade_value pv p = row_value r"
    by (simp add: player_trade_value_def)
  have fallback: "\<forall>p. sleeper_id p = None \<or> sleeper_id p = Some []
              \<or> (\<forall>r \<in> set pv. Some (row_sleeper_id r) \<noteq> sleeper_id p)
            \<longrightarrow> player_trade_value pv p = get_or 0 (pvalue p)"
    by (auto simp: player_trade_value_def find_Some_iff split: option.splits)
  show ?thesis
    using z nz gate nonneg found fallback assms side_value_sum by simp
qed

theorem fairness_gate_witness:
  "check_fairness_constraint
     (candidate_trade ''A'' ''B'' [known_player ''1'' ''QB'' 45] [known_player ''9'' ''RB'' 48])
     [\<lparr>row_sleeper_id = ''1'', row_position = ''QB'', row_value = 50\<rparr>] = (True, 4)"
proof -
  let ?t = "candidate_trade ''A'' ''B'' [known_player ''1'' ''QB'' 45] [known_player ''9'' ''RB'' 48]"
  let ?pv = "[\<lparr>row_sleeper_id = ''1'', row_position = ''QB'', row_value = 50\<rparr>]"
  have a: "50 = calculate_trade_side_value (team_a_sends ?t) ?pv"
    by (simp add: calculate_trade_side_value_def player_trade_value_def candidate_trade_def
          known_player_def)
  have b: "48 = calculate_trade_side_value (team_b_sends ?t) ?pv"
    by (simp add: calculate_trade_side_value_def player_trade_value_def candidate_trade_def
          known_player_def get_or_def)
  have r: "py_round1 4 = 4" by (simp add: py_round1_def)
  from fairness_gate [OF a b] r show ?thesis
    by (simp add: prod_eq_iff)
qed

text \<open>
  The claim as stated compares the rounded percentage. Sides worth 10000 and 8796 differ by
  12.04 percent: the gate fails, with both sides non-zero, while the reported value is
  12.0, which does not exceed 12.
\<close>

theorem fairness_gate_rounded_counterexample:
  "\<not> fst (check_fairness_constraint
       (candidate_trade ''A'' ''B'' [known_player ''1'' ''QB'' 10000] [known_player ''2'' ''RB'' 8796])
       [index_row ''1'' ''QB'' 10000, index_row ''2'' ''RB'' 8796])
   \<and> calculate_trade_side_value [known_player ''1'' ''QB'' 10000]
       [index_row ''1'' ''QB'' 10000, index_row ''2'' ''RB'' 8796] = 10000
   \<and> calculate_trade_side_value [known_player ''2'' ''RB'' 8796]
       [index_row ''1'' ''QB'' 10000, index_row ''2'' ''RB'' 8796] = 8796
   \<and> snd (check_fairness_constraint
       (candidate_trade ''A'' ''B'' [known_player ''1'' ''QB'' 10000] [known_player ''2'' ''RB'' 8796])
       [index_row ''1'' ''QB'' 10000, index_row ''2'' ''RB'' 8796])
       = py_round1 (\<bar>10000 - 8796\<bar> / max 10000 8796 * 100)
   \<and> snd (check_fairness_constraint
       (candidate_trade ''A'' ''B'' [known_player ''1'' ''QB'' 10000] [known_player ''2'' ''RB'' 8796])
       [index_row ''1'' ''QB'' 10000, index_row ''2'' ''RB'' 8796])
       = 12
   \<and> \<not> 12 < snd (check_fairness_constraint
       (candidate_trade ''A'' ''B'' [known_player ''1'' ''QB'' 10000] [known_player ''2'' ''RB'' 8796])
       [index_row ''1'' ''QB'' 10000, index_row ''2'' ''RB'' 8796])"
  by (simp add: check_fairness_constraint_def calculate_trade_side_value_def player_trade_value_def
        candidate_trade_def known_player_def index_row_def get_or_def FAIRNESS_THRESHOLD_def
        py_round1_def Let_def)

text \<open>
  Claim C1 at a trade that passes the fairness gate: one player each way, sides worth 200
  and 199 (0.5 percent apart, within the 12% threshold), both gains 10.0. The source
  compares 0.5 with 0.12, takes the branch for trades over the threshold and scores the
  trade 1.0; the score of the specification is 15.0.
\<close>

theorem score_trade_threshold_units:
  "score_trade (candidate_trade ''A'' ''B'' [known_player ''1'' ''QB'' 200] [known_player ''2'' ''RB'' 199])
      10 10 (1 / 2) = 1
   \<and> claimed_trade_score
        (candidate_trade ''A'' ''B'' [known_player ''1'' ''QB'' 200] [known_player ''2'' ''RB'' 199])
        10 10 (1 / 2) = 15
   \<and> check_fairness_constraint
        (candidate_trade ''A'' ''B'' [known_player ''1'' ''QB'' 200] [known_player ''2'' ''RB'' 199])
        [index_row ''1'' ''QB'' 200, index_row ''2'' ''RB'' 199]
       = (True, 1 / 2)"
  by (simp add: score_trade_def claimed_trade_score_def candidate_trade_def FAIRNESS_THRESHOLD_def
        MIN_STARTER_GAIN_def check_fairness_constraint_def calculate_trade_side_value_def
        player_trade_value_def known_player_def index_row_def get_or_def py_round1_def Let_def)

section \<open>Candidate generation\<close>

lemma set_generate_1_for_1_trades:
  "set (generate_1_for_1_trades ta tpa aps tb tpb bps) =
     {one_for_one_trade ta tb a_pos b_pos a_player b_player | a_pos b_pos a_player b_player.
        a_pos \<in> set aps \<and> b_pos \<in> set bps
        \<and> a_player \<in> set (take 3 (players_at tpa a_pos))
        \<and> b_player \<in> set (take 3 (players_at tpb b_pos))}"
  by (auto simp: generate_1_for_1_trades_def Let_def)

lemma concat_map_err_elem:
  "concat_map_err f xs = Inr ys \<Longrightarrow> y \<in> set ys
   \<Longrightarrow> \<exists>x \<in> set xs. \<exists>zs. f x = Inr zs \<and> y \<in> set zs"
proof (induction xs arbitrary: ys)
  case Nil then show ?case by simp
next
  case (Cons x xs)
  from Cons.prems(1) obtain zs rest where fx: "f x = Inr zs"
    and r: "concat_map_err f xs = Inr rest" and ys: "ys = zs @ rest"
    by (auto split: sum.splits)
  show ?case
  proof (cases "y \<in> set zs")
    case True then show ?thesis using fx by auto
  next
    case False
    then have "y \<in> set rest" using Cons.prems(2) ys by simp
    from Cons.IH [OF r this] show ?thesis by auto
  qed
qed

lemma generate_2_for_2_trades_shape:
  assumes "generate_2_for_2_trades ta tpa aps tb tpb bps = Inr ts" and "t \<in> set ts"
  shows "is_two_for_two t"
proof -
  from concat_map_err_elem [OF assms [unfolded generate_2_for_2_trades_def]]
  obtain a1 a2 z1 where l1: "concat_map_err (\<lambda>(b_pos1, b_pos2).
         let a_players1 = take 2 (players_at tpa a1);
             a_players2 = second_slot tpa a1 a2;
             b_players1 = take 2 (players_at tpb b_pos1);
             b_players2 = second_slot tpb b_pos1 b_pos2
         in concat_map_err (\<lambda>a_p1.
              concat_map_err (\<lambda>a_p2.
                (case same_sleeper_id a_p1 a_p2 of
                   Inl e \<Rightarrow> Inl e
                 | Inr True \<Rightarrow> Inr []
                 | Inr False \<Rightarrow>
                     concat_map_err (\<lambda>b_p1.
                       concat_map_err (\<lambda>b_p2.
                         (case same_sleeper_id b_p1 b_p2 of
                            Inl e \<Rightarrow> Inl e
                          | Inr True \<Rightarrow> Inr []
                          | Inr False \<Rightarrow>
                              Inr [two_for_two_trade ta tb a1 a2 b_pos1 b_pos2
                                     a_p1 a_p2 b_p1 b_p2]))
                        b_players2)
                      b_players1))
               a_players2)
             a_players1)
        (position_pairs bps) = Inr z1" and t1: "t \<in> set z1"
    by auto
  from concat_map_err_elem [OF l1 t1]
  obtain b1 b2 z2 where l2: "concat_map_err (\<lambda>a_p1.
              concat_map_err (\<lambda>a_p2.
                (case same_sleeper_id a_p1 a_p2 of
                   Inl e \<Rightarrow> Inl e
                 | Inr True \<Rightarrow> Inr []
                 | Inr False \<Rightarrow>
                     concat_map_err (\<lambda>b_p1.
                       concat_map_err (\<lambda>b_p2.
                         (case same_sleeper_id b_p1 b_p2 of
                            Inl e \<Rightarrow> Inl e
                          | Inr True \<Rightarrow> Inr []
                          | Inr False \<Rightarrow>
                              Inr [two_for_two_trade ta tb a1 a2 b1 b2
                                     a_p1 a_p2 b_p1 b_p2]))
                        (second_slot tpb b1 b2))
                      (take 2 (players_at tpb b1))))
               (second_slot tpa a1 a2))
             (take 2 (players_at tpa a1)) = Inr z2" and t2: "t \<in> set z2"
    by (auto simp: Let_def)
  from concat_map_err_elem [OF l2 t2]
  obtain p1 z3 where l3: "concat_map_err (\<lambda>a_p2.
                (case same_sleeper_id p1 a_p2 of
                   Inl e \<Rightarrow> Inl e
                 | Inr True \<Rightarrow> Inr []
                 | Inr False \<Rightarrow>
                     concat_map_err (\<lambda>b_p1.
                       concat_map_err (\<lambda>b_p2.
                         (case same_sleeper_id b_p1 b_p2 of
                            Inl e \<Rightarrow> Inl e
                          | Inr True \<Rightarrow> Inr []
                          | Inr False \<Rightarrow>
                              Inr [two_for_two_trade ta tb a1 a2 b1 b2
                                     p1 a_p2 b_p1 b_p2]))
                        (second_slot tpb b1 b2))
                      (take 2 (players_at tpb b1))))
               (second_slot tpa a1 a2) = Inr z3" and t3: "t \<in> set z3"
    by auto
  from concat_map_err_elem [OF l3 t3]
  obtain p2 z4 where l4: "(case same_sleeper_id p1 p2 of
                   Inl e \<Rightarrow> Inl e
                 | Inr True \<Rightarrow> Inr []
                 | Inr False \<Rightarrow>
                     concat_map_err (\<lambda>b_p1.
                       concat_map_err (\<lambda>b_p2.
                         (case same_sleeper_id b_p1 b_p2 of
                            Inl e \<Rightarrow> Inl e
                          | Inr True \<Rightarrow> Inr []
                          | Inr False \<Rightarrow>
                              Inr [two_for_two_trade ta tb a1 a2 b1 b2
                                     p1 p2 b_p1 b_p2]))
                        (second_slot tpb b1 b2))
                      (take 2 (players_at tpb b1))) = Inr z4" and t4: "t \<in> set z4"
    by auto
  from l4 t4 have l5: "concat_map_err (\<lambda>b_p1.
                       concat_map_err (\<lambda>b_p2.
                         (case same_sleeper_id b_p1 b_p2 of
                            Inl e \<Rightarrow> Inl e
                          | Inr True \<Rightarrow> Inr []
                          | Inr False \<Rightarrow>
                              Inr [two_for_two_trade ta tb a1 a2 b1 b2
                                     p1 p2 b_p1 b_p2]))
                        (second_slot tpb b1 b2))
                      (take 2 (players_at tpb b1)) = Inr z4"
    by (auto split: sum.splits bool.splits)
  from concat_map_err_elem [OF l5 t4]
  obtain q1 z6 where l6: "concat_map_err (\<lambda>b_p2.
                         (case same_sleeper_id q1 b_p2 of
                            Inl e \<Rightarrow> Inl e
                          | Inr True \<Rightarrow> Inr []
                          | Inr False \<Rightarrow>
                              Inr [two_for_two_trade ta tb a1 a2 b1 b2
                                     p1 p2 q1 b_p2]))
                        (second_slot tpb b1 b2) = Inr z6" and t6: "t \<in> set z6"
    by auto
  from concat_map_err_elem [OF l6 t6]
  obtain q2 z7 where l7: "(case same_sleeper_id q1 q2 of
                            Inl e \<Rightarrow> Inl e
                          | Inr True \<Rightarrow> Inr []
                          | Inr False \<Rightarrow>
                              Inr [two_for_two_trade ta tb a1 a2 b1 b2
                                     p1 p2 q1 q2]) = Inr z7" and t7: "t \<in> set z7"
    by auto
  from l7 t7 have "t = two_for_two_trade ta tb a1 a2 b1 b2 p1 p2 q1 q2"
    by (auto split: sum.splits bool.splits)
  then show ?thesis by (simp add: is_two_for_two_def two_for_two_trade_def)
qed

text \<open>
  Claim C8, in the form the source satisfies. When \<^verbatim>\<open>_find_complementary_trades\<close>
  returns for a pair of teams A and B: it returns candidates only when A's surplus meets B's needs and B's surplus meets
  A's needs; its 1-for-1 candidates are exactly the combinations of one of A's top-3
  players at a position of A's surplus that B needs with one of B's top-3 players at a
  position of B's surplus that A needs; and no candidate sends more than 2 players per side.
\<close>

theorem complementary_trades:
  assumes "set (iter (set (surplus team_a_data) \<inter> set (needs team_b_data)))
             = set (surplus team_a_data) \<inter> set (needs team_b_data)"
    and "set (iter (set (surplus team_b_data) \<inter> set (needs team_a_data)))
             = set (surplus team_b_data) \<inter> set (needs team_a_data)"
    and "find_complementary_trades iter ta team_a_data tb team_b_data player_values enriched_data
             = Inr trades"
  shows "(trades \<noteq> [] \<longrightarrow>
            set (surplus team_a_data) \<inter> set (needs team_b_data) \<noteq> {}
          \<and> set (surplus team_b_data) \<inter> set (needs team_a_data) \<noteq> {})
       \<and> {t \<in> set trades. trade_type t = ''1-for-1''} =
           {one_for_one_trade ta tb a_pos b_pos a_player b_player | a_pos b_pos a_player b_player.
              a_pos \<in> set (surplus team_a_data) \<inter> set (needs team_b_data)
            \<and> b_pos \<in> set (surplus team_b_data) \<inter> set (needs team_a_data)
            \<and> a_player \<in> set (take 3 (players_at
                  (get_team_players_by_position ta player_values enriched_data) a_pos))
            \<and> b_player \<in> set (take 3 (players_at
                  (get_team_players_by_position tb player_values enriched_data) b_pos))}
       \<and> (\<forall>t \<in> set trades. length (team_a_sends t) \<le> 2 \<and> length (team_b_sends t) \<le> 2)"
proof (cases "set (surplus team_a_data) \<inter> set (needs team_b_data) \<noteq> {}
            \<and> set (surplus team_b_data) \<inter> set (needs team_a_data) \<noteq> {}")
  case False
  then have "trades = []" using assms(3) by (auto simp: find_complementary_trades_def Let_def)
  then show ?thesis using False by auto
next
  case True
  let ?tpa = "get_team_players_by_position ta player_values enriched_data"
  let ?tpb = "get_team_players_by_position tb player_values enriched_data"
  let ?ao = "iter (set (surplus team_a_data) \<inter> set (needs team_b_data))"
  let ?bo = "iter (set (surplus team_b_data) \<inter> set (needs team_a_data))"
  from True assms(3) obtain trades2 where
    two: "generate_2_for_2_trades ta ?tpa ?ao tb ?tpb ?bo = Inr trades2"
    and tr: "trades = generate_1_for_1_trades ta ?tpa ?ao tb ?tpb ?bo @ trades2"
    by (auto simp: find_complementary_trades_def Let_def split: sum.splits)
  have s2: "\<forall>t \<in> set trades2. is_two_for_two t"
    using generate_2_for_2_trades_shape [OF two] by blast
  have one_type: "\<forall>t \<in> set (generate_1_for_1_trades ta ?tpa ?ao tb ?tpb ?bo).
      trade_type t = ''1-for-1'' \<and> length (team_a_sends t) = 1 \<and> length (team_b_sends t) = 1"
    by (auto simp: set_generate_1_for_1_trades one_for_one_trade_def)
  have "{t \<in> set trades. trade_type t = ''1-for-1''}
          = set (generate_1_for_1_trades ta ?tpa ?ao tb ?tpb ?bo)"
    using s2 one_type unfolding tr by (auto simp: is_two_for_two_def)
  then have ones: "{t \<in> set trades. trade_type t = ''1-for-1''} =
           {one_for_one_trade ta tb a_pos b_pos a_player b_player | a_pos b_pos a_player b_player.
              a_pos \<in> set (surplus team_a_data) \<inter> set (needs team_b_data)
            \<and> b_pos \<in> set (surplus team_b_data) \<inter> set (needs team_a_data)
            \<and> a_player \<in> set (take 3 (players_at ?tpa a_pos))
            \<and> b_player \<in> set (take 3 (players_at ?tpb b_pos))}"
    unfolding set_generate_1_for_1_trades assms(1) assms(2) by simp
  have lens: "\<forall>t \<in> set trades. length (team_a_sends t) \<le> 2 \<and> length (team_b_sends t) \<le> 2"
    using s2 one_type unfolding tr by (auto simp: is_two_for_two_def)
  show ?thesis using True ones lens by blast
qed

lemma example_players_a:
  "get_team_players_by_position ''A'' [] example_rosters
     = [(''QB'', [known_player ''1'' ''QB'' 50]), (''RB'', []),
        (''WR'', [known_player ''2'' ''WR'' 40]), (''TE'', [])]"
  by (simp add: get_team_players_by_position_def example_rosters_def known_player_def)

lemma example_players_b:
  "get_team_players_by_position ''B'' [] example_rosters
     = [(''QB'', []), (''RB'', [known_player ''4'' ''RB'' 48, known_player ''3'' ''RB'' 45]),
        (''WR'', []), (''TE'', [])]"
  by (simp add: get_team_players_by_position_def example_rosters_def known_player_def get_or_def)

lemma example_result:
  "find_complementary_trades listed_order ''A'' (position_lists [''RB''] [''QB'', ''WR''])
       ''B'' (position_lists [''QB''] [''RB'']) [] example_rosters
     = Inr [one_for_one_trade ''A'' ''B'' ''QB'' ''RB'' (known_player ''1'' ''QB'' 50) (known_player ''4'' ''RB'' 48),
            one_for_one_trade ''A'' ''B'' ''QB'' ''RB'' (known_player ''1'' ''QB'' 50) (known_player ''3'' ''RB'' 45)]"
  by (simp add: find_complementary_trades_def example_players_a example_players_b position_lists_def
        listed_order_def generate_1_for_1_trades_def generate_2_for_2_trades_def
        position_pairs_def players_at_def get_or_def second_slot_def Let_def)

theorem complementary_trades_witness:
  "find_complementary_trades listed_order ''A'' (position_lists [''RB''] [''QB'', ''WR''])
       ''B'' (position_lists [''QB''] [''RB'']) [] example_rosters
     = Inr [one_for_one_trade ''A'' ''B'' ''QB'' ''RB'' (known_player ''1'' ''QB'' 50) (known_player ''4'' ''RB'' 48),
            one_for_one_trade ''A'' ''B'' ''QB'' ''RB'' (known_player ''1'' ''QB'' 50) (known_player ''3'' ''RB'' 45)]
   \<and> {t \<in> set [one_for_one_trade ''A'' ''B'' ''QB'' ''RB'' (known_player ''1'' ''QB'' 50) (known_player ''4'' ''RB'' 48),
            one_for_one_trade ''A'' ''B'' ''QB'' ''RB'' (known_player ''1'' ''QB'' 50) (known_player ''3'' ''RB'' 45)].
        trade_type t = ''1-for-1''} =
           {one_for_one_trade ''A'' ''B'' a_pos b_pos a_player b_player | a_pos b_pos a_player b_player.
              a_pos \<in> set (surplus (position_lists [''RB''] [''QB'', ''WR''])) \<inter> set (needs (position_lists [''QB''] [''RB'']))
            \<and> b_pos \<in> set (surplus (position_lists [''QB''] [''RB''])) \<inter> set (needs (position_lists [''RB''] [''QB'', ''WR'']))
            \<and> a_player \<in> set (take 3 (players_at
                  (get_team_players_by_position ''A'' [] example_rosters) a_pos))
            \<and> b_player \<in> set (take 3 (players_at
                  (get_team_players_by_position ''B'' [] example_rosters) b_pos))}"
proof -
  have e1: "set (listed_order (set (surplus (position_lists [''RB''] [''QB'', ''WR''])) \<inter> set (needs (position_lists [''QB''] [''RB'']))))
           = set (surplus (position_lists [''RB''] [''QB'', ''WR''])) \<inter> set (needs (position_lists [''QB''] [''RB'']))"
    by (simp add: listed_order_def position_lists_def)
  have e2: "set (listed_order (set (surplus (position_lists [''QB''] [''RB''])) \<inter> set (needs (position_lists [''RB''] [''QB'', ''WR'']))))
           = set (surplus (position_lists [''QB''] [''RB''])) \<inter> set (needs (position_lists [''RB''] [''QB'', ''WR'']))"
    by (simp add: listed_order_def position_lists_def)
  from complementary_trades [OF e1 e2 example_result] example_result show ?thesis by blast
qed

text \<open>
  The claim as stated draws the positions from the whole surplus of each team. Team A has
  surplus at QB and WR, team B needs QB only: A's wide receiver paired with B's best running
  back is a combination of the claim, and no candidate sends him.
\<close>

theorem one_for_one_all_surplus_counterexample:
  "find_complementary_trades listed_order ''A'' (position_lists [''RB''] [''QB'', ''WR''])
       ''B'' (position_lists [''QB''] [''RB'']) [] example_rosters
     = Inr [one_for_one_trade ''A'' ''B'' ''QB'' ''RB'' (known_player ''1'' ''QB'' 50) (known_player ''4'' ''RB'' 48),
            one_for_one_trade ''A'' ''B'' ''QB'' ''RB'' (known_player ''1'' ''QB'' 50) (known_player ''3'' ''RB'' 45)]
   \<and> ([known_player ''2'' ''WR'' 40], [known_player ''4'' ''RB'' 48])
       \<in> claimed_one_for_one ''A'' (position_lists [''RB''] [''QB'', ''WR'']) ''B'' (position_lists [''QB''] [''RB''])
           (get_team_players_by_position ''A'' [] example_rosters)
           (get_team_players_by_position ''B'' [] example_rosters)
   \<and> ([known_player ''2'' ''WR'' 40], [known_player ''4'' ''RB'' 48])
       \<notin> one_for_one_sends
           [one_for_one_trade ''A'' ''B'' ''QB'' ''RB'' (known_player ''1'' ''QB'' 50) (known_player ''4'' ''RB'' 48),
            one_for_one_trade ''A'' ''B'' ''QB'' ''RB'' (known_player ''1'' ''QB'' 50) (known_player ''3'' ''RB'' 45)]"
proof -
  have m: "([known_player ''2'' ''WR'' 40], [known_player ''4'' ''RB'' 48])
       \<in> claimed_one_for_one ''A'' (position_lists [''RB''] [''QB'', ''WR'']) ''B'' (position_lists [''QB''] [''RB''])
           (get_team_players_by_position ''A'' [] example_rosters)
           (get_team_players_by_position ''B'' [] example_rosters)"
    unfolding claimed_one_for_one_def example_players_a example_players_b
    by (simp add: position_lists_def players_at_def get_or_def)
  have n: "([known_player ''2'' ''WR'' 40], [known_player ''4'' ''RB'' 48])
       \<notin> one_for_one_sends
           [one_for_one_trade ''A'' ''B'' ''QB'' ''RB'' (known_player ''1'' ''QB'' 50) (known_player ''4'' ''RB'' 48),
            one_for_one_trade ''A'' ''B'' ''QB'' ''RB'' (known_player ''1'' ''QB'' 50) (known_player ''3'' ''RB'' 45)]"
    by (auto simp: one_for_one_sends_def one_for_one_trade_def known_player_def)
  show ?thesis using example_result m n by simp
qed

section \<open>Trade simulation\<close>

lemma preserves_refl: "preserves h h"
  by (simp add: preserves_def)

lemma preserves_trans: "preserves h1 h2 \<Longrightarrow> preserves h2 h3 \<Longrightarrow> preserves h1 h3"
  by (auto simp: preserves_def)

lemma alloc_dict_preserves: "alloc_dict d h = (a, h') \<Longrightarrow> preserves h h' \<and> a = next_addr h \<and> next_addr h' = Suc a"
  by (auto simp: alloc_dict_def preserves_def)

lemma alloc_list_preserves: "alloc_list xs h = (a, h') \<Longrightarrow> preserves h h' \<and> a = next_addr h \<and> next_addr h' = Suc a"
  by (auto simp: alloc_list_def preserves_def)

lemma fresh_write_refl: "fresh_write n h h"
  by (simp add: fresh_write_def)

lemma fresh_write_trans: "fresh_write n h1 h2 \<Longrightarrow> fresh_write n h2 h3 \<Longrightarrow> fresh_write n h1 h3"
  by (auto simp: fresh_write_def)

lemma remove_step_fresh: "n \<le> l \<Longrightarrow> fresh_write n h (remove_step l p h)"
  by (auto simp: remove_step_def list_remove_def fresh_write_def split: option.splits)

lemma add_step_fresh: "n \<le> l \<Longrightarrow> fresh_write n h (add_step l p h)"
  by (auto simp: add_step_def list_append_def fresh_write_def split: option.splits)

lemma fold_fresh:
  assumes "\<And>p h. fresh_write n h (f p h)"
  shows "fresh_write n h (fold f ps h)"
proof (induction ps arbitrary: h)
  case Nil then show ?case by (simp add: fresh_write_refl)
next
  case (Cons p ps)
  show ?case using fresh_write_trans [OF assms [of h p] Cons [of "f p h"]] by simp
qed

lemma dict_set_players_fresh: "n \<le> a \<Longrightarrow> fresh_write n h (dict_set_players a l h)"
  by (auto simp: dict_set_players_def fresh_write_def)

lemma preserves_fresh:
  "preserves h h1 \<Longrightarrow> fresh_write (next_addr h) h1 h2 \<Longrightarrow> preserves h h2"
  by (auto simp: preserves_def fresh_write_def)

lemma simulate_trade_roster_preserves:
  assumes "simulate_trade_roster roster removes adds h = (r, h')"
  shows "preserves h h'"
proof -
  obtain u h1 where c: "dict_copy roster h = (u, h1)" by (cases "dict_copy roster h")
  obtain l h2 where lc: "list_copy (players_ref (deref_dict h1 u)) h1 = (l, h2)"
    by (cases "list_copy (players_ref (deref_dict h1 u)) h1")
  from c have p1: "preserves h h1" and u: "u = next_addr h" and n1: "next_addr h1 = Suc u"
    using alloc_dict_preserves by (auto simp: dict_copy_def)
  from lc have p2: "preserves h1 h2" and l: "l = next_addr h1"
    using alloc_list_preserves by (auto simp: list_copy_def)
  let ?h3 = "fold (remove_step l) removes h2"
  let ?h4 = "fold (add_step l) adds ?h3"
  have nl: "next_addr h \<le> l" using u n1 l by simp
  have f3: "fresh_write (next_addr h) h2 ?h3"
    by (rule fold_fresh) (rule remove_step_fresh [OF nl])
  have f4: "fresh_write (next_addr h) ?h3 ?h4"
    by (rule fold_fresh) (rule add_step_fresh [OF nl])
  have f5: "fresh_write (next_addr h) ?h4 (dict_set_players u l ?h4)"
    by (rule dict_set_players_fresh) (simp add: u)
  have h': "h' = dict_set_players u l ?h4"
    using assms c lc by (auto simp: simulate_trade_roster_def Let_def)
  have "preserves h h2" using p1 p2 by (rule preserves_trans)
  then show ?thesis unfolding h'
    using f3 f4 f5 by (blast intro: preserves_fresh)
qed

lemma calculate_starter_impact_preserves:
  "preserves h (snd (calculate_starter_impact trade team_rosters player_values h))"
proof (cases "\<exists>ra rb. team_rosters (team_a trade) = Some ra \<and> team_rosters (team_b trade) = Some rb
                \<and> \<not> roster_falsy h ra \<and> \<not> roster_falsy h rb")
  case False
  then have "calculate_starter_impact trade team_rosters player_values h = ((0, 0), h)"
    by (auto simp: calculate_starter_impact_def split: option.splits)
  then show ?thesis by (simp add: preserves_refl)
next
  case True
  then obtain ra rb where ra: "team_rosters (team_a trade) = Some ra"
    and rb: "team_rosters (team_b trade) = Some rb"
    and nf: "\<not> roster_falsy h ra" "\<not> roster_falsy h rb" by blast
  obtain ca h1 where c1: "dict_copy ra h = (ca, h1)" by (cases "dict_copy ra h")
  obtain na h2 where s1: "simulate_trade_roster ca (team_a_sends trade) (team_b_sends trade) h1 = (na, h2)"
    by (cases "simulate_trade_roster ca (team_a_sends trade) (team_b_sends trade) h1")
  obtain cb h3 where c2: "dict_copy rb h2 = (cb, h3)" by (cases "dict_copy rb h2")
  obtain nb h4 where s2: "simulate_trade_roster cb (team_b_sends trade) (team_a_sends trade) h3 = (nb, h4)"
    by (cases "simulate_trade_roster cb (team_b_sends trade) (team_a_sends trade) h3")
  have p1: "preserves h h1" using c1 alloc_dict_preserves by (auto simp: dict_copy_def)
  have p2: "preserves h1 h2" using s1 by (rule simulate_trade_roster_preserves)
  have p3: "preserves h2 h3" using c2 alloc_dict_preserves by (auto simp: dict_copy_def)
  have p4: "preserves h3 h4" using s2 by (rule simulate_trade_roster_preserves)
  have "snd (calculate_starter_impact trade team_rosters player_values h) = h4"
    using ra rb nf c1 s1 c2 s2 by (simp add: calculate_starter_impact_def Let_def)
  then show ?thesis using p1 p2 p3 p4 by (auto intro: preserves_trans)
qed

lemma preserves_read_roster:
  assumes "preserves h h'" "heap_ok h" "dict_objs h r = Some d"
  shows "read_roster h' r = read_roster h r \<and> dict_objs h' r = Some d
       \<and> (\<forall>l. players_ref d = Some l \<longrightarrow> list_objs h' l = list_objs h l)"
proof -
  from assms(2,3) have r: "r < next_addr h" and l: "\<forall>l. players_ref d = Some l \<longrightarrow> l < next_addr h"
    by (auto simp: heap_ok_def)
  from assms(1) r have d': "dict_objs h' r = dict_objs h r" by (simp add: preserves_def)
  from assms(1) l have l': "\<forall>l. players_ref d = Some l \<longrightarrow> list_objs h' l = list_objs h l"
    by (simp add: preserves_def)
  show ?thesis using d' l' assms(3)
    by (cases "players_ref d") (auto simp: read_roster_def deref_dict_def deref_list_def get_or_def)
qed

lemma simulate_trade_roster_new:
  assumes "simulate_trade_roster roster removes adds h = (r', h')"
  shows "r' = next_addr h"
  using assms
  by (auto simp: simulate_trade_roster_def dict_copy_def alloc_dict_def Let_def split: prod.splits)

text \<open>
  Claim C10. In a well-formed store, a roster dictionary of the caller's \<^verbatim>\<open>team_rosters\<close> is
  the same object with the same content after \<^verbatim>\<open>calculate_starter_impact\<close>, and the list
  its key \<^verbatim>\<open>players\<close> refers to is unchanged, whatever the trade; the same holds for a call
  of \<^verbatim>\<open>_simulate_trade_roster\<close> on that roster, whose result is a new dictionary.
\<close>

theorem calculate_starter_impact_frame:
  assumes "heap_ok h" and "team_rosters team_name = Some r" and "dict_objs h r = Some d"
    and "calculate_starter_impact trade team_rosters player_values h = (gains, h')"
    and "simulate_trade_roster r removes adds h = (r2, h2)"
  shows "dict_objs h' r = Some d
       \<and> (\<forall>l. players_ref d = Some l \<longrightarrow> list_objs h' l = list_objs h l)
       \<and> read_roster h' r = read_roster h r
       \<and> r2 \<noteq> r
       \<and> dict_objs h2 r = Some d
       \<and> (\<forall>l. players_ref d = Some l \<longrightarrow> list_objs h2 l = list_objs h l)
       \<and> read_roster h2 r = read_roster h r"
proof -
  have p: "preserves h h'"
    using calculate_starter_impact_preserves [of h trade team_rosters player_values] assms(4)
    by simp
  have p2: "preserves h h2" using assms(5) by (rule simulate_trade_roster_preserves)
  have "r < next_addr h" using assms(1,3) by (auto simp: heap_ok_def)
  then have "r2 \<noteq> r" using simulate_trade_roster_new [OF assms(5)] by simp
  then show ?thesis
    using preserves_read_roster [OF p assms(1) assms(3)]
      preserves_read_roster [OF p2 assms(1) assms(3)]
    by simp
qed

lemma example_heap_ok: "heap_ok example_heap"
  by (auto simp: heap_ok_def example_heap_def split: if_splits)

theorem calculate_starter_impact_frame_witness:
  "read_roster
     (snd (calculate_starter_impact example_swap [''Team1'' \<mapsto> 0, ''Team2'' \<mapsto> 2]
             [\<lparr>row_sleeper_id = ''421'', row_position = ''QB'', row_value = 45\<rparr>,
              \<lparr>row_sleeper_id = ''4035'', row_position = ''TE'', row_value = 36\<rparr>]
             example_heap)) 0
     = \<lparr>players = Some [''421'', ''4046''], roster_meta = [(''owner_id'', ''user1'')]\<rparr>
   \<and> read_roster
       (snd (simulate_trade_roster 0 (team_a_sends example_swap) (team_b_sends example_swap)
               example_heap)) 0
     = \<lparr>players = Some [''421'', ''4046''], roster_meta = [(''owner_id'', ''user1'')]\<rparr>
   \<and> read_roster
       (snd (simulate_trade_roster 0 (team_a_sends example_swap) (team_b_sends example_swap)
               example_heap)) 4
     = \<lparr>players = Some [''4046'', ''4035''], roster_meta = [(''owner_id'', ''user1'')]\<rparr>"
proof -
  have r: "[''Team1'' \<mapsto> 0 :: addr, ''Team2'' \<mapsto> 2] ''Team1'' = Some 0" by simp
  have d: "dict_objs example_heap 0
             = Some \<lparr> players_ref = Some 1, obj_meta = [(''owner_id'', ''user1'')] \<rparr>"
    by (simp add: example_heap_def)
  have o: "read_roster example_heap 0
             = \<lparr>players = Some [''421'', ''4046''], roster_meta = [(''owner_id'', ''user1'')]\<rparr>"
    by (simp add: read_roster_def example_heap_def deref_dict_def deref_list_def get_or_def)
  have n: "read_roster
       (snd (simulate_trade_roster 0 (team_a_sends example_swap) (team_b_sends example_swap)
               example_heap)) 4
     = \<lparr>players = Some [''4046'', ''4035''], roster_meta = [(''owner_id'', ''user1'')]\<rparr>"
    by (simp add: simulate_trade_roster_def dict_copy_def list_copy_def alloc_dict_def alloc_list_def
      example_heap_def example_swap_def candidate_trade_def known_player_def deref_dict_def deref_list_def
      get_or_def remove_step_def add_step_def list_remove_def list_append_def dict_set_players_def
      read_roster_def)
  have c: "calculate_starter_impact example_swap [''Team1'' \<mapsto> 0, ''Team2'' \<mapsto> 2]
             [\<lparr>row_sleeper_id = ''421'', row_position = ''QB'', row_value = 45\<rparr>,
              \<lparr>row_sleeper_id = ''4035'', row_position = ''TE'', row_value = 36\<rparr>]
             example_heap
      = (fst (calculate_starter_impact example_swap [''Team1'' \<mapsto> 0, ''Team2'' \<mapsto> 2]
             [\<lparr>row_sleeper_id = ''421'', row_position = ''QB'', row_value = 45\<rparr>,
              \<lparr>row_sleeper_id = ''4035'', row_position = ''TE'', row_value = 36\<rparr>]
             example_heap),
         snd (calculate_starter_impact example_swap [''Team1'' \<mapsto> 0, ''Team2'' \<mapsto> 2]
             [\<lparr>row_sleeper_id = ''421'', row_position = ''QB'', row_value = 45\<rparr>,
              \<lparr>row_sleeper_id = ''4035'', row_position = ''TE'', row_value = 36\<rparr>]
             example_heap))"
    by simp
  have s: "simulate_trade_roster 0 (team_a_sends example_swap) (team_b_sends example_swap)
               example_heap
      = (fst (simulate_trade_roster 0 (team_a_sends example_swap) (team_b_sends example_swap)
               example_heap),
         snd (simulate_trade_roster 0 (team_a_sends example_swap) (team_b_sends example_swap)
               example_heap))"
    by simp
  from calculate_starter_impact_frame [OF example_heap_ok r d c s] o n
  show ?thesis by simp
qed

section \<open>The ladder and the fairness gate\<close>









end
